theory Spec2Isabelle
  imports Complex_Main
begin

section \<open>JavaScript values as the service sees them\<close>

text \<open>
  The service (\<^verbatim>\<open>server/src/services/openai.ts\<close>) works on the result of
  \<^verbatim>\<open>JSON.parse\<close>, typed \<^verbatim>\<open>any\<close>. A parsed reply is a JSON value; reading a property
  that is not there gives \<^verbatim>\<open>undefined\<close>, which is the \<open>None\<close> of \<open>jsval\<close>.

  A Number is NaN, an infinity or a finite double, the latter written by its exact rational
  value. The negative zero is identified with zero: the service only ever tests a number
  for truthiness before it stores it, and both zeros are falsy.

  Strings are sequences of characters, of which the service uses emptiness, equality and
  the search for an ASCII substring; a non-ASCII literal of the source is given by the bytes
  of its UTF-8 encoding.

  An object is the list of its own properties; the first binding of a key is the property.
\<close>

datatype jsnum = NaN | PosInf | NegInf | Fin rat

datatype json =
    JNull
  | JBool bool
  | JNum jsnum
  | JStr string
  | JArr "json list"
  | JObj "(string \<times> json) list"

type_synonym jsval = "json option"

text \<open>
  What a \<^verbatim>\<open>throw\<close> carries: an instance of \<^verbatim>\<open>Error\<close> (also of a subclass, such as
  \<^verbatim>\<open>TypeError\<close> and \<^verbatim>\<open>SyntaxError\<close>) with its message, or any other value.
\<close>

datatype thrown = Error string | NonError

text \<open>
  The builtins of the language that the service calls and that are not code of the
  repository are parameters of the model: the rounding of an exact result to the nearest
  double (\<open>fl\<close>, which is also the value of a decimal literal of the source), the conversions
  between strings and Numbers, the JSON parser and printer, and the
  implementation-defined messages of the two \<^verbatim>\<open>TypeError\<close>s that can arise.
\<close>

record runtime =
  fl :: "rat \<Rightarrow> jsnum"
  StringToNumber :: "string \<Rightarrow> jsnum"
  NumberToString :: "jsnum \<Rightarrow> string"
  JSON_parse :: "string \<Rightarrow> thrown + json"
  JSON_stringify :: "json \<Rightarrow> string"
  null_read_message :: "string \<Rightarrow> string"
  to_primitive_message :: string

definition andThen :: "thrown + 'a \<Rightarrow> ('a \<Rightarrow> thrown + 'b) \<Rightarrow> thrown + 'b" where
  "andThen m f = (case m of Inl e \<Rightarrow> Inl e | Inr x \<Rightarrow> f x)"

fun mapE :: "('a \<Rightarrow> thrown + 'b) \<Rightarrow> 'a list \<Rightarrow> thrown + 'b list" where
  "mapE f [] = Inr []"
| "mapE f (x # xs) = andThen (f x) (\<lambda>y. andThen (mapE f xs) (\<lambda>ys. Inr (y # ys)))"

subsection \<open>Truthiness and the operator \<^verbatim>\<open>||\<close>\<close>

definition truthy_num :: "jsnum \<Rightarrow> bool" where
  "truthy_num n = (n \<noteq> NaN \<and> n \<noteq> Fin 0)"

fun truthy :: "json \<Rightarrow> bool" where
  "truthy JNull = False"
| "truthy (JBool b) = b"
| "truthy (JNum n) = truthy_num n"
| "truthy (JStr s) = (s \<noteq> [])"
| "truthy (JArr xs) = True"
| "truthy (JObj kvs) = True"

definition ToBoolean :: "jsval \<Rightarrow> bool" where
  "ToBoolean v = (case v of None \<Rightarrow> False | Some x \<Rightarrow> truthy x)"

text \<open>\<^verbatim>\<open>a || b\<close> on two values that may be undefined.\<close>

definition lor :: "jsval \<Rightarrow> jsval \<Rightarrow> jsval" where
  "lor a b = (if ToBoolean a then a else b)"

text \<open>\<^verbatim>\<open>a || d\<close> where \<open>d\<close> is a literal, hence defined.\<close>

definition or_else :: "jsval \<Rightarrow> json \<Rightarrow> json" where
  "or_else a d = (case a of None \<Rightarrow> d | Some x \<Rightarrow> if truthy x then x else d)"

text \<open>\<^verbatim>\<open>Number(..) || d\<close> and \<^verbatim>\<open>Number(..) || undefined\<close>.\<close>

definition num_or :: "jsnum \<Rightarrow> jsnum \<Rightarrow> jsnum" where
  "num_or n d = (if truthy_num n then n else d)"

definition num_or_undefined :: "jsnum \<Rightarrow> jsnum option" where
  "num_or_undefined n = (if truthy_num n then Some n else None)"

subsection \<open>Reading a property\<close>

text \<open>
  \<^verbatim>\<open>v.k\<close> for a value \<open>v\<close> that is not \<^verbatim>\<open>null\<close>, and for the property names this service
  reads off a parsed reply, none of which is defined on a prototype: an object gives its
  own property, every other value gives \<^verbatim>\<open>undefined\<close>. On \<^verbatim>\<open>null\<close> the read throws
  a \<^verbatim>\<open>TypeError\<close>, which each caller below writes out at its first read.
\<close>

fun getProp :: "json \<Rightarrow> string \<Rightarrow> jsval" where
  "getProp (JObj kvs) k = map_of kvs k"
| "getProp v k = None"

subsection \<open>Conversion to a string and to a Number\<close>

fun join_with :: "string \<Rightarrow> string list \<Rightarrow> string" where
  "join_with sep [] = []"
| "join_with sep [s] = s"
| "join_with sep (s # t # ts) = s @ sep @ join_with sep (t # ts)"

text \<open>
  \<^verbatim>\<open>ToString\<close> of a JSON value. An array joins its elements with a comma, \<^verbatim>\<open>null\<close>
  elements giving the empty string. A plain object gives \<^verbatim>\<open>[object Object]\<close> through
  \<^verbatim>\<open>Object.prototype.toString\<close>, unless it has an own property \<^verbatim>\<open>toString\<close>: a parsed
  value is never callable, \<^verbatim>\<open>valueOf\<close> gives no primitive either, and the conversion throws
  a \<^verbatim>\<open>TypeError\<close>.
\<close>

fun ToString :: "runtime \<Rightarrow> json \<Rightarrow> thrown + string"
  and ToStrings :: "runtime \<Rightarrow> json list \<Rightarrow> thrown + string list" where
  "ToString rt JNull = Inr ''null''"
| "ToString rt (JBool b) = Inr (if b then ''true'' else ''false'')"
| "ToString rt (JNum n) = Inr (NumberToString rt n)"
| "ToString rt (JStr s) = Inr s"
| "ToString rt (JArr xs) = andThen (ToStrings rt xs) (\<lambda>ss. Inr (join_with '','' ss))"
| "ToString rt (JObj kvs) =
     (if map_of kvs ''toString'' \<noteq> None then Inl (Error (to_primitive_message rt))
      else Inr ''[object Object]'')"
| "ToStrings rt [] = Inr []"
| "ToStrings rt (x # xs) =
     andThen (if x = JNull then Inr [] else ToString rt x)
       (\<lambda>s. andThen (ToStrings rt xs) (\<lambda>ss. Inr (s # ss)))"

text \<open>
  \<^verbatim>\<open>Number(v)\<close>. An array or object is first made primitive: \<^verbatim>\<open>valueOf\<close> returns the
  object itself, so the result is that of \<^verbatim>\<open>toString\<close>, as above.
\<close>

fun Number :: "runtime \<Rightarrow> jsval \<Rightarrow> thrown + jsnum" where
  "Number rt None = Inr NaN"
| "Number rt (Some JNull) = Inr (Fin 0)"
| "Number rt (Some (JBool b)) = Inr (Fin (if b then 1 else 0))"
| "Number rt (Some (JNum n)) = Inr n"
| "Number rt (Some (JStr s)) = Inr (StringToNumber rt s)"
| "Number rt (Some v) = andThen (ToString rt v) (\<lambda>s. Inr (StringToNumber rt s))"

subsection \<open>Arithmetic on Numbers\<close>

fun js_neg :: "jsnum \<Rightarrow> jsnum" where
  "js_neg NaN = NaN"
| "js_neg PosInf = NegInf"
| "js_neg NegInf = PosInf"
| "js_neg (Fin x) = Fin (- x)"

fun js_add :: "runtime \<Rightarrow> jsnum \<Rightarrow> jsnum \<Rightarrow> jsnum" where
  "js_add rt NaN b = NaN"
| "js_add rt a NaN = NaN"
| "js_add rt PosInf NegInf = NaN"
| "js_add rt NegInf PosInf = NaN"
| "js_add rt PosInf b = PosInf"
| "js_add rt NegInf b = NegInf"
| "js_add rt (Fin x) (Fin y) = fl rt (x + y)"
| "js_add rt (Fin x) b = b"

definition js_sub :: "runtime \<Rightarrow> jsnum \<Rightarrow> jsnum \<Rightarrow> jsnum" where
  "js_sub rt a b = js_add rt a (js_neg b)"

fun js_sgn :: "jsnum \<Rightarrow> int" where
  "js_sgn NaN = 0"
| "js_sgn PosInf = 1"
| "js_sgn NegInf = - 1"
| "js_sgn (Fin x) = (if x > 0 then 1 else if x < 0 then - 1 else 0)"

fun js_mul :: "runtime \<Rightarrow> jsnum \<Rightarrow> jsnum \<Rightarrow> jsnum" where
  "js_mul rt NaN b = NaN"
| "js_mul rt a NaN = NaN"
| "js_mul rt (Fin x) (Fin y) = fl rt (x * y)"
| "js_mul rt a b =
     (if js_sgn a * js_sgn b = 0 then NaN
      else if js_sgn a * js_sgn b > 0 then PosInf else NegInf)"

fun Math_abs :: "jsnum \<Rightarrow> jsnum" where
  "Math_abs NaN = NaN"
| "Math_abs PosInf = PosInf"
| "Math_abs NegInf = PosInf"
| "Math_abs (Fin x) = Fin \<bar>x\<bar>"

text \<open>\<^verbatim>\<open>a > b\<close> on Numbers; a comparison with NaN is false.\<close>

fun js_gt :: "jsnum \<Rightarrow> jsnum \<Rightarrow> bool" where
  "js_gt NaN b = False"
| "js_gt a NaN = False"
| "js_gt NegInf b = False"
| "js_gt a PosInf = False"
| "js_gt PosInf b = True"
| "js_gt a NegInf = True"
| "js_gt (Fin x) (Fin y) = (x > y)"

section \<open>The nutrition record\<close>

text \<open>
  The type \<^verbatim>\<open>MealAnalysisResult\<close> is declared outside the service; its fields are those of
  the object literal that \<^verbatim>\<open>normalizeAnalysisResult\<close> builds (lines 317 to 388), in that
  order. A field that the literal fills with \<^verbatim>\<open>Number(..) || 0\<close> is a Number, one filled
  with \<^verbatim>\<open>Number(..) || undefined\<close> is an optional Number, one filled with \<^verbatim>\<open>.. || literal\<close>
  is a defined value, and one filled with \<^verbatim>\<open>.. || undefined\<close> is any value.
\<close>

text \<open>The accumulator of the \<^verbatim>\<open>reduce\<close> of lines 392 to 400.\<close>

record Totals =
  calories :: jsnum
  protein :: jsnum
  carbs :: jsnum
  fat :: jsnum

record Ingredient =
  name :: json
  calories :: jsnum
  protein :: jsnum
  carbs :: jsnum
  fat :: jsnum
  fiber :: jsnum
  sugar :: jsnum
  sodium_mg :: jsnum
  cholesterol_mg :: jsnum
  saturated_fats_g :: jsnum
  polyunsaturated_fats_g :: jsnum
  monounsaturated_fats_g :: jsnum
  omega_3_g :: jsnum
  omega_6_g :: jsnum
  soluble_fiber_g :: jsnum
  insoluble_fiber_g :: jsnum
  alcohol_g :: jsnum
  caffeine_mg :: jsnum
  serving_size_g :: jsnum
  glycemic_index :: json
  insulin_index :: json
  vitamins_json :: json
  micronutrients_json :: json
  allergens_json :: json

record MealAnalysisResult =
  name :: json
  description :: json
  calories :: jsnum
  protein :: jsnum
  carbs :: jsnum
  fat :: jsnum
  fiber :: jsnum
  sugar :: jsnum
  sodium :: jsnum
  confidence :: jsnum
  ingredients :: "Ingredient list"
  cooking_method :: json
  food_category :: json
  recommendations :: json
  servingSize :: json
  cookingMethod :: json
  healthNotes :: json
  saturated_fats_g :: "jsnum option"
  polyunsaturated_fats_g :: "jsnum option"
  monounsaturated_fats_g :: "jsnum option"
  omega_3_g :: "jsnum option"
  omega_6_g :: "jsnum option"
  soluble_fiber_g :: "jsnum option"
  insoluble_fiber_g :: "jsnum option"
  cholesterol_mg :: "jsnum option"
  alcohol_g :: "jsnum option"
  caffeine_mg :: "jsnum option"
  liquids_ml :: "jsnum option"
  serving_size_g :: "jsnum option"
  allergens_json :: json
  vitamins_json :: json
  micronutrients_json :: json
  glycemic_index :: jsval
  insulin_index :: jsval
  processing_level :: json
  additives_json :: json
  health_risk_notes :: jsval

text \<open>The object that \<^verbatim>\<open>console.warn\<close> prints at line 405.\<close>

record Warning =
  mealCalories :: jsnum
  ingredientCalories :: jsnum
  difference :: jsnum

section \<open>Normalization\<close>

text \<open>The Hebrew placeholder names of lines 318 and 332, as UTF-8.\<close>

definition hebrew_unknown_meal :: string where
  "hebrew_unknown_meal =
     [CHR 0xD7, CHR 0x90, CHR 0xD7, CHR 0xA8, CHR 0xD7, CHR 0x95, CHR 0xD7, CHR 0x97, CHR 0xD7, CHR 0x94,
      CHR 0x20, CHR 0xD7, CHR 0x9C, CHR 0xD7, CHR 0x90, CHR 0x20, CHR 0xD7, CHR 0x9E, CHR 0xD7, CHR 0x96,
      CHR 0xD7, CHR 0x95, CHR 0xD7, CHR 0x94, CHR 0xD7, CHR 0x94]"

definition hebrew_unknown_ingredient :: string where
  "hebrew_unknown_ingredient =
     [CHR 0xD7, CHR 0x9E, CHR 0xD7, CHR 0xA8, CHR 0xD7, CHR 0x9B, CHR 0xD7, CHR 0x99, CHR 0xD7, CHR 0x91,
      CHR 0x20, CHR 0xD7, CHR 0x9C, CHR 0xD7, CHR 0x90, CHR 0x20, CHR 0xD7, CHR 0x9E, CHR 0xD7, CHR 0x96,
      CHR 0xD7, CHR 0x95, CHR 0xD7, CHR 0x94, CHR 0xD7, CHR 0x94]"

text \<open>
  The callback of \<^verbatim>\<open>result.ingredients.map\<close> (lines 331 to 356). Its first read,
  \<^verbatim>\<open>ingredient.name\<close>, throws on \<^verbatim>\<open>null\<close>; every \<^verbatim>\<open>Number(..)\<close> may throw, in the
  order of the literal.
\<close>

definition normalizeIngredient :: "runtime \<Rightarrow> bool \<Rightarrow> json \<Rightarrow> thrown + Ingredient" where
  "normalizeIngredient rt isHebrew ingredient =
    (if ingredient = JNull then Inl (Error (null_read_message rt ''name''))
     else
      andThen (Number rt (getProp ingredient ''calories'')) (\<lambda>n_calories.
      andThen (Number rt (lor (getProp ingredient ''protein'') (getProp ingredient ''protein_g''))) (\<lambda>n_protein.
      andThen (Number rt (lor (getProp ingredient ''carbs'') (getProp ingredient ''carbs_g''))) (\<lambda>n_carbs.
      andThen (Number rt (lor (getProp ingredient ''fat'') (getProp ingredient ''fats_g''))) (\<lambda>n_fat.
      andThen (Number rt (lor (getProp ingredient ''fiber'') (getProp ingredient ''fiber_g''))) (\<lambda>n_fiber.
      andThen (Number rt (lor (getProp ingredient ''sugar'') (getProp ingredient ''sugar_g''))) (\<lambda>n_sugar.
      andThen (Number rt (lor (getProp ingredient ''sodium_mg'') (getProp ingredient ''sodium''))) (\<lambda>n_sodium_mg.
      andThen (Number rt (getProp ingredient ''cholesterol_mg'')) (\<lambda>n_cholesterol_mg.
      andThen (Number rt (getProp ingredient ''saturated_fats_g'')) (\<lambda>n_saturated_fats_g.
      andThen (Number rt (getProp ingredient ''polyunsaturated_fats_g'')) (\<lambda>n_polyunsaturated_fats_g.
      andThen (Number rt (getProp ingredient ''monounsaturated_fats_g'')) (\<lambda>n_monounsaturated_fats_g.
      andThen (Number rt (getProp ingredient ''omega_3_g'')) (\<lambda>n_omega_3_g.
      andThen (Number rt (getProp ingredient ''omega_6_g'')) (\<lambda>n_omega_6_g.
      andThen (Number rt (getProp ingredient ''soluble_fiber_g'')) (\<lambda>n_soluble_fiber_g.
      andThen (Number rt (getProp ingredient ''insoluble_fiber_g'')) (\<lambda>n_insoluble_fiber_g.
      andThen (Number rt (getProp ingredient ''alcohol_g'')) (\<lambda>n_alcohol_g.
      andThen (Number rt (getProp ingredient ''caffeine_mg'')) (\<lambda>n_caffeine_mg.
      andThen (Number rt (getProp ingredient ''serving_size_g'')) (\<lambda>n_serving_size_g.
      Inr \<lparr>
        Ingredient.name = or_else (getProp ingredient ''name'')
          (JStr (if isHebrew then hebrew_unknown_ingredient else ''Unknown ingredient'')),
        Ingredient.calories = num_or n_calories (Fin 0),
        Ingredient.protein = num_or n_protein (Fin 0),
        Ingredient.carbs = num_or n_carbs (Fin 0),
        Ingredient.fat = num_or n_fat (Fin 0),
        Ingredient.fiber = num_or n_fiber (Fin 0),
        Ingredient.sugar = num_or n_sugar (Fin 0),
        Ingredient.sodium_mg = num_or n_sodium_mg (Fin 0),
        Ingredient.cholesterol_mg = num_or n_cholesterol_mg (Fin 0),
        Ingredient.saturated_fats_g = num_or n_saturated_fats_g (Fin 0),
        Ingredient.polyunsaturated_fats_g = num_or n_polyunsaturated_fats_g (Fin 0),
        Ingredient.monounsaturated_fats_g = num_or n_monounsaturated_fats_g (Fin 0),
        Ingredient.omega_3_g = num_or n_omega_3_g (Fin 0),
        Ingredient.omega_6_g = num_or n_omega_6_g (Fin 0),
        Ingredient.soluble_fiber_g = num_or n_soluble_fiber_g (Fin 0),
        Ingredient.insoluble_fiber_g = num_or n_insoluble_fiber_g (Fin 0),
        Ingredient.alcohol_g = num_or n_alcohol_g (Fin 0),
        Ingredient.caffeine_mg = num_or n_caffeine_mg (Fin 0),
        Ingredient.serving_size_g = num_or n_serving_size_g (Fin 0),
        Ingredient.glycemic_index = or_else (getProp ingredient ''glycemic_index'') JNull,
        Ingredient.insulin_index = or_else (getProp ingredient ''insulin_index'') JNull,
        Ingredient.vitamins_json = or_else (getProp ingredient ''vitamins_json'') (JObj []),
        Ingredient.micronutrients_json = or_else (getProp ingredient ''micronutrients_json'') (JObj []),
        Ingredient.allergens_json = or_else (getProp ingredient ''allergens_json'') (JObj [])
      \<rparr>)))))))))))))))))))"

text \<open>
  The object literal of lines 317 to 388. The first read, \<^verbatim>\<open>result.name\<close>, throws on
  \<^verbatim>\<open>null\<close>; the properties are evaluated in the order they are written.
\<close>

definition normalized_literal :: "runtime \<Rightarrow> json \<Rightarrow> bool \<Rightarrow> thrown + MealAnalysisResult" where
  "normalized_literal rt result isHebrew =
    (if result = JNull then Inl (Error (null_read_message rt ''name''))
     else
      andThen (Number rt (getProp result ''calories'')) (\<lambda>n_calories.
      andThen (Number rt (getProp result ''protein'')) (\<lambda>n_protein.
      andThen (Number rt (getProp result ''carbs'')) (\<lambda>n_carbs.
      andThen (Number rt (getProp result ''fat'')) (\<lambda>n_fat.
      andThen (Number rt (getProp result ''fiber'')) (\<lambda>n_fiber.
      andThen (Number rt (getProp result ''sugar'')) (\<lambda>n_sugar.
      andThen (Number rt (getProp result ''sodium'')) (\<lambda>n_sodium.
      andThen (Number rt (getProp result ''confidence'')) (\<lambda>n_confidence.
      andThen (case getProp result ''ingredients'' of
                 Some (JArr xs) \<Rightarrow> mapE (normalizeIngredient rt isHebrew) xs
               | _ \<Rightarrow> Inr []) (\<lambda>ingredient_list.
      andThen (Number rt (getProp result ''saturated_fats_g'')) (\<lambda>x_saturated_fats_g.
      andThen (Number rt (getProp result ''polyunsaturated_fats_g'')) (\<lambda>x_polyunsaturated_fats_g.
      andThen (Number rt (getProp result ''monounsaturated_fats_g'')) (\<lambda>x_monounsaturated_fats_g.
      andThen (Number rt (getProp result ''omega_3_g'')) (\<lambda>x_omega_3_g.
      andThen (Number rt (getProp result ''omega_6_g'')) (\<lambda>x_omega_6_g.
      andThen (Number rt (getProp result ''soluble_fiber_g'')) (\<lambda>x_soluble_fiber_g.
      andThen (Number rt (getProp result ''insoluble_fiber_g'')) (\<lambda>x_insoluble_fiber_g.
      andThen (Number rt (getProp result ''cholesterol_mg'')) (\<lambda>x_cholesterol_mg.
      andThen (Number rt (getProp result ''alcohol_g'')) (\<lambda>x_alcohol_g.
      andThen (Number rt (getProp result ''caffeine_mg'')) (\<lambda>x_caffeine_mg.
      andThen (Number rt (getProp result ''liquids_ml'')) (\<lambda>x_liquids_ml.
      andThen (Number rt (getProp result ''serving_size_g'')) (\<lambda>x_serving_size_g.
      Inr \<lparr>
        name = or_else (getProp result ''name'') (JStr (if isHebrew then hebrew_unknown_meal else ''Unknown meal'')),
        description = or_else (getProp result ''description'') (JStr ''''),
        calories = num_or n_calories (Fin 0),
        protein = num_or n_protein (Fin 0),
        carbs = num_or n_carbs (Fin 0),
        fat = num_or n_fat (Fin 0),
        fiber = num_or n_fiber (Fin 0),
        sugar = num_or n_sugar (Fin 0),
        sodium = num_or n_sodium (Fin 0),
        confidence = num_or n_confidence (Fin 75),
        ingredients = ingredient_list,
        cooking_method = or_else (lor (getProp result ''cooking_method'') (getProp result ''cookingMethod'')) (JStr ''''),
        food_category = or_else (lor (getProp result ''food_category'') (getProp result ''foodCategory'')) (JStr ''''),
        recommendations = or_else (lor (getProp result ''recommendations'') (getProp result ''healthNotes'')) (JStr ''''),
        servingSize = or_else (lor (getProp result ''serving_size'') (getProp result ''servingSize'')) (JStr ''1 serving''),
        cookingMethod = or_else (lor (getProp result ''cooking_method'') (getProp result ''cookingMethod'')) (JStr ''''),
        healthNotes = or_else (lor (getProp result ''recommendations'') (getProp result ''health_notes'')) (JStr ''''),
        saturated_fats_g = num_or_undefined x_saturated_fats_g,
        polyunsaturated_fats_g = num_or_undefined x_polyunsaturated_fats_g,
        monounsaturated_fats_g = num_or_undefined x_monounsaturated_fats_g,
        omega_3_g = num_or_undefined x_omega_3_g,
        omega_6_g = num_or_undefined x_omega_6_g,
        soluble_fiber_g = num_or_undefined x_soluble_fiber_g,
        insoluble_fiber_g = num_or_undefined x_insoluble_fiber_g,
        cholesterol_mg = num_or_undefined x_cholesterol_mg,
        alcohol_g = num_or_undefined x_alcohol_g,
        caffeine_mg = num_or_undefined x_caffeine_mg,
        liquids_ml = num_or_undefined x_liquids_ml,
        serving_size_g = num_or_undefined x_serving_size_g,
        allergens_json = or_else (getProp result ''allergens_json'') (JObj []),
        vitamins_json = or_else (getProp result ''vitamins_json'') (JObj []),
        micronutrients_json = or_else (getProp result ''micronutrients_json'') (JObj []),
        glycemic_index = lor (getProp result ''glycemic_index'') None,
        insulin_index = lor (getProp result ''insulin_index'') None,
        processing_level = or_else (getProp result ''processing_level'') (JStr ''''),
        additives_json = or_else (getProp result ''additives_json'') (JObj []),
        health_risk_notes = lor (getProp result ''health_risk_notes'') None
      \<rparr>))))))))))))))))))))))"

text \<open>The \<^verbatim>\<open>reduce\<close> of lines 392 to 400.\<close>

definition ingredientTotals :: "runtime \<Rightarrow> Ingredient list \<Rightarrow> Totals" where
  "ingredientTotals rt ings =
     foldl (\<lambda>acc ingredient.
        \<lparr> Totals.calories = js_add rt (Totals.calories acc) (Ingredient.calories ingredient),
          Totals.protein = js_add rt (Totals.protein acc) (Ingredient.protein ingredient),
          Totals.carbs = js_add rt (Totals.carbs acc) (Ingredient.carbs ingredient),
          Totals.fat = js_add rt (Totals.fat acc) (Ingredient.fat ingredient) \<rparr>)
       \<lparr> Totals.calories = Fin 0, Totals.protein = Fin 0, Totals.carbs = Fin 0, Totals.fat = Fin 0 \<rparr>
       ings"

text \<open>
  The check of lines 391 to 411: what it prints with \<^verbatim>\<open>console.warn\<close>. The literal
  \<^verbatim>\<open>0.2\<close> is the double nearest to one fifth.
\<close>

definition caloriesDiff :: "runtime \<Rightarrow> MealAnalysisResult \<Rightarrow> jsnum" where
  "caloriesDiff rt normalized =
     Math_abs (js_sub rt (Totals.calories (ingredientTotals rt (ingredients normalized)))
                 (calories normalized))"

definition calories_mismatch :: "runtime \<Rightarrow> MealAnalysisResult \<Rightarrow> bool" where
  "calories_mismatch rt normalized =
     js_gt (caloriesDiff rt normalized) (js_mul rt (calories normalized) (fl rt (1 / 5)))"

definition totals_check :: "runtime \<Rightarrow> MealAnalysisResult \<Rightarrow> Warning list" where
  "totals_check rt normalized =
     (if length (ingredients normalized) > 0 then
        (if calories_mismatch rt normalized
         then [\<lparr> mealCalories = calories normalized,
                 ingredientCalories = Totals.calories (ingredientTotals rt (ingredients normalized)),
                 difference = caloriesDiff rt normalized \<rparr>]
         else [])
      else [])"

text \<open>
  \<^verbatim>\<open>normalizeAnalysisResult\<close> (lines 312 to 414): the record it returns, with the
  warnings it printed on the way.
\<close>

definition normalizeAnalysisResult ::
    "runtime \<Rightarrow> json \<Rightarrow> bool \<Rightarrow> thrown + (MealAnalysisResult \<times> Warning list)" where
  "normalizeAnalysisResult rt result isHebrew =
     andThen (normalized_literal rt result isHebrew)
       (\<lambda>normalized. Inr (normalized, totals_check rt normalized))"

section \<open>Prompts\<close>

text \<open>\<^verbatim>\<open>buildAnalysisPrompt\<close> (lines 184 to 260): the two template literals, without change.\<close>

definition hebrew_analysis_prompt :: string where
  \<open>hebrew_analysis_prompt =
     [CHR 0xD7, CHR 0x90, CHR 0xD7, CHR 0xAA, CHR 0xD7, CHR 0x94, CHR 0x20, CHR 0xD7, CHR 0x9E,
      CHR 0xD7, CHR 0x95, CHR 0xD7, CHR 0x9E, CHR 0xD7, CHR 0x97, CHR 0xD7, CHR 0x94, CHR 0x20,
      CHR 0xD7, CHR 0xAA, CHR 0xD7, CHR 0x96, CHR 0xD7, CHR 0x95, CHR 0xD7, CHR 0xA0, CHR 0xD7,
      CHR 0x94, CHR 0x20, CHR 0xD7, CHR 0x9E, CHR 0xD7, CHR 0xA7, CHR 0xD7, CHR 0xA6, CHR 0xD7,
      CHR 0x95, CHR 0xD7, CHR 0xA2, CHR 0xD7, CHR 0x99, CHR 0x20, CHR 0xD7, CHR 0x94, CHR 0xD7,
      CHR 0x9E, CHR 0xD7, CHR 0xA0, CHR 0xD7, CHR 0xAA, CHR 0xD7, CHR 0x97, CHR 0x20, CHR 0xD7,
      CHR 0xAA, CHR 0xD7, CHR 0x9E, CHR 0xD7, CHR 0x95, CHR 0xD7, CHR 0xA0, CHR 0xD7, CHR 0x95,
      CHR 0xD7, CHR 0xAA, CHR 0x20, CHR 0xD7, CHR 0xA9, CHR 0xD7, CHR 0x9C, CHR 0x20, CHR 0xD7,
      CHR 0x90, CHR 0xD7, CHR 0xA8, CHR 0xD7, CHR 0x95, CHR 0xD7, CHR 0x97, CHR 0xD7, CHR 0x95,
      CHR 0xD7, CHR 0xAA] @
     ''. '' @
     [CHR 0xD7, CHR 0xA0, CHR 0xD7, CHR 0xAA, CHR 0xD7, CHR 0x97, CHR 0x20, CHR 0xD7, CHR 0x90,
      CHR 0xD7, CHR 0xAA, CHR 0x20, CHR 0xD7, CHR 0x94, CHR 0xD7, CHR 0xAA, CHR 0xD7, CHR 0x9E,
      CHR 0xD7, CHR 0x95, CHR 0xD7, CHR 0xA0, CHR 0xD7, CHR 0x94, CHR 0x20, CHR 0xD7, CHR 0x95,
      CHR 0xD7, CHR 0xAA, CHR 0xD7, CHR 0x97, CHR 0xD7, CHR 0x96, CHR 0xD7, CHR 0x99, CHR 0xD7,
      CHR 0xA8] @
     '' JSON '' @
     [CHR 0xD7, CHR 0x9E, CHR 0xD7, CHR 0x93, CHR 0xD7, CHR 0x95, CHR 0xD7, CHR 0x99, CHR 0xD7,
      CHR 0xA7, CHR 0x20, CHR 0xD7, CHR 0xA2, CHR 0xD7, CHR 0x9D, CHR 0x20, CHR 0xD7, CHR 0x94,
      CHR 0xD7, CHR 0x9E, CHR 0xD7, CHR 0x99, CHR 0xD7, CHR 0x93, CHR 0xD7, CHR 0xA2, CHR 0x20,
      CHR 0xD7, CHR 0x94, CHR 0xD7, CHR 0x91, CHR 0xD7, CHR 0x90] @
     '':\<newline>'' @
     ''\<newline>'' @
     ''{\<newline>'' @
     ''  "name": "'' @
     [CHR 0xD7, CHR 0xA9, CHR 0xD7, CHR 0x9D, CHR 0x20, CHR 0xD7, CHR 0x94, CHR 0xD7, CHR 0x90,
      CHR 0xD7, CHR 0xA8, CHR 0xD7, CHR 0x95, CHR 0xD7, CHR 0x97, CHR 0xD7, CHR 0x94, CHR 0x20,
      CHR 0xD7, CHR 0x91, CHR 0xD7, CHR 0xA2, CHR 0xD7, CHR 0x91, CHR 0xD7, CHR 0xA8, CHR 0xD7,
      CHR 0x99, CHR 0xD7, CHR 0xAA] @
     ''",\<newline>'' @
     ''  "description": "'' @
     [CHR 0xD7, CHR 0xAA, CHR 0xD7, CHR 0x99, CHR 0xD7, CHR 0x90, CHR 0xD7, CHR 0x95, CHR 0xD7,
      CHR 0xA8, CHR 0x20, CHR 0xD7, CHR 0xA7, CHR 0xD7, CHR 0xA6, CHR 0xD7, CHR 0xA8, CHR 0x20,
      CHR 0xD7, CHR 0xA9, CHR 0xD7, CHR 0x9C, CHR 0x20, CHR 0xD7, CHR 0x94, CHR 0xD7, CHR 0x90,
      CHR 0xD7, CHR 0xA8, CHR 0xD7, CHR 0x95, CHR 0xD7, CHR 0x97, CHR 0xD7, CHR 0x94] @
     ''",\<newline>'' @
     ''  "calories": '' @
     [CHR 0xD7, CHR 0x9E, CHR 0xD7, CHR 0xA1, CHR 0xD7, CHR 0xA4, CHR 0xD7, CHR 0xA8, CHR 0x5F,
      CHR 0xD7, CHR 0xA7, CHR 0xD7, CHR 0x9C, CHR 0xD7, CHR 0x95, CHR 0xD7, CHR 0xA8, CHR 0xD7,
      CHR 0x99, CHR 0xD7, CHR 0x95, CHR 0xD7, CHR 0xAA, CHR 0x5F, CHR 0xD7, CHR 0x9B, CHR 0xD7,
      CHR 0x95, CHR 0xD7, CHR 0x9C, CHR 0xD7, CHR 0x9C] @
     '',\<newline>'' @
     ''  "protein": '' @
     [CHR 0xD7, CHR 0x9E, CHR 0xD7, CHR 0xA1, CHR 0xD7, CHR 0xA4, CHR 0xD7, CHR 0xA8, CHR 0x5F,
      CHR 0xD7, CHR 0x92, CHR 0xD7, CHR 0xA8, CHR 0xD7, CHR 0x9E, CHR 0xD7, CHR 0x99, CHR 0x5F,
      CHR 0xD7, CHR 0x97, CHR 0xD7, CHR 0x9C, CHR 0xD7, CHR 0x91, CHR 0xD7, CHR 0x95, CHR 0xD7,
      CHR 0x9F] @
     '',\<newline>'' @
     ''  "carbs": '' @
     [CHR 0xD7, CHR 0x9E, CHR 0xD7, CHR 0xA1, CHR 0xD7, CHR 0xA4, CHR 0xD7, CHR 0xA8, CHR 0x5F,
      CHR 0xD7, CHR 0x92, CHR 0xD7, CHR 0xA8, CHR 0xD7, CHR 0x9E, CHR 0xD7, CHR 0x99, CHR 0x5F,
      CHR 0xD7, CHR 0xA4, CHR 0xD7, CHR 0x97, CHR 0xD7, CHR 0x9E, CHR 0xD7, CHR 0x99, CHR 0xD7,
      CHR 0x9E, CHR 0xD7, CHR 0x95, CHR 0xD7, CHR 0xAA] @
     '',\<newline>'' @
     ''  "fat": '' @
     [CHR 0xD7, CHR 0x9E, CHR 0xD7, CHR 0xA1, CHR 0xD7, CHR 0xA4, CHR 0xD7, CHR 0xA8, CHR 0x5F,
      CHR 0xD7, CHR 0x92, CHR 0xD7, CHR 0xA8, CHR 0xD7, CHR 0x9E, CHR 0xD7, CHR 0x99, CHR 0x5F,
      CHR 0xD7, CHR 0xA9, CHR 0xD7, CHR 0x95, CHR 0xD7, CHR 0x9E, CHR 0xD7, CHR 0x9F] @
     '',\<newline>'' @
     ''  "fiber": '' @
     [CHR 0xD7, CHR 0x9E, CHR 0xD7, CHR 0xA1, CHR 0xD7, CHR 0xA4, CHR 0xD7, CHR 0xA8, CHR 0x5F,
      CHR 0xD7, CHR 0x92, CHR 0xD7, CHR 0xA8, CHR 0xD7, CHR 0x9E, CHR 0xD7, CHR 0x99, CHR 0x5F,
      CHR 0xD7, CHR 0xA1, CHR 0xD7, CHR 0x99, CHR 0xD7, CHR 0x91, CHR 0xD7, CHR 0x99, CHR 0xD7,
      CHR 0x9D] @
     '',\<newline>'' @
     ''  "sugar": '' @
     [CHR 0xD7, CHR 0x9E, CHR 0xD7, CHR 0xA1, CHR 0xD7, CHR 0xA4, CHR 0xD7, CHR 0xA8, CHR 0x5F,
      CHR 0xD7, CHR 0x92, CHR 0xD7, CHR 0xA8, CHR 0xD7, CHR 0x9E, CHR 0xD7, CHR 0x99, CHR 0x5F,
      CHR 0xD7, CHR 0xA1, CHR 0xD7, CHR 0x95, CHR 0xD7, CHR 0x9B, CHR 0xD7, CHR 0xA8] @
     '',\<newline>'' @
     ''  "sodium": '' @
     [CHR 0xD7, CHR 0x9E, CHR 0xD7, CHR 0xA1, CHR 0xD7, CHR 0xA4, CHR 0xD7, CHR 0xA8, CHR 0x5F,
      CHR 0xD7, CHR 0x9E, CHR 0xD7, CHR 0x99, CHR 0xD7, CHR 0x9C, CHR 0xD7, CHR 0x99, CHR 0xD7,
      CHR 0x92, CHR 0xD7, CHR 0xA8, CHR 0xD7, CHR 0x9D, CHR 0x5F, CHR 0xD7, CHR 0xA0, CHR 0xD7,
      CHR 0xAA, CHR 0xD7, CHR 0xA8, CHR 0xD7, CHR 0x9F] @
     '',\<newline>'' @
     ''  "ingredients": [\<newline>'' @
     ''    {\<newline>'' @
     ''      "name": "'' @
     [CHR 0xD7, CHR 0xA9, CHR 0xD7, CHR 0x9D, CHR 0x20, CHR 0xD7, CHR 0x94, CHR 0xD7, CHR 0x9E,
      CHR 0xD7, CHR 0xA8, CHR 0xD7, CHR 0x9B, CHR 0xD7, CHR 0x99, CHR 0xD7, CHR 0x91, CHR 0x20,
      CHR 0xD7, CHR 0x91, CHR 0xD7, CHR 0xA2, CHR 0xD7, CHR 0x91, CHR 0xD7, CHR 0xA8, CHR 0xD7,
      CHR 0x99, CHR 0xD7, CHR 0xAA] @
     ''",\<newline>'' @
     ''      "calories": '' @
     [CHR 0xD7, CHR 0x9E, CHR 0xD7, CHR 0xA1, CHR 0xD7, CHR 0xA4, CHR 0xD7, CHR 0xA8, CHR 0x5F,
      CHR 0xD7, CHR 0xA7, CHR 0xD7, CHR 0x9C, CHR 0xD7, CHR 0x95, CHR 0xD7, CHR 0xA8, CHR 0xD7,
      CHR 0x99, CHR 0xD7, CHR 0x95, CHR 0xD7, CHR 0xAA] @
     '',\<newline>'' @
     ''      "protein": '' @
     [CHR 0xD7, CHR 0x9E, CHR 0xD7, CHR 0xA1, CHR 0xD7, CHR 0xA4, CHR 0xD7, CHR 0xA8, CHR 0x5F,
      CHR 0xD7, CHR 0x92, CHR 0xD7, CHR 0xA8, CHR 0xD7, CHR 0x9E, CHR 0xD7, CHR 0x99, CHR 0x5F,
      CHR 0xD7, CHR 0x97, CHR 0xD7, CHR 0x9C, CHR 0xD7, CHR 0x91, CHR 0xD7, CHR 0x95, CHR 0xD7,
      CHR 0x9F] @
     '',\<newline>'' @
     ''      "carbs": '' @
     [CHR 0xD7, CHR 0x9E, CHR 0xD7, CHR 0xA1, CHR 0xD7, CHR 0xA4, CHR 0xD7, CHR 0xA8, CHR 0x5F,
      CHR 0xD7, CHR 0x92, CHR 0xD7, CHR 0xA8, CHR 0xD7, CHR 0x9E, CHR 0xD7, CHR 0x99, CHR 0x5F,
      CHR 0xD7, CHR 0xA4, CHR 0xD7, CHR 0x97, CHR 0xD7, CHR 0x9E, CHR 0xD7, CHR 0x99, CHR 0xD7,
      CHR 0x9E, CHR 0xD7, CHR 0x95, CHR 0xD7, CHR 0xAA] @
     '',\<newline>'' @
     ''      "fat": '' @
     [CHR 0xD7, CHR 0x9E, CHR 0xD7, CHR 0xA1, CHR 0xD7, CHR 0xA4, CHR 0xD7, CHR 0xA8, CHR 0x5F,
      CHR 0xD7, CHR 0x92, CHR 0xD7, CHR 0xA8, CHR 0xD7, CHR 0x9E, CHR 0xD7, CHR 0x99, CHR 0x5F,
      CHR 0xD7, CHR 0xA9, CHR 0xD7, CHR 0x95, CHR 0xD7, CHR 0x9E, CHR 0xD7, CHR 0x9F] @
     '',\<newline>'' @
     ''      "fiber": '' @
     [CHR 0xD7, CHR 0x9E, CHR 0xD7, CHR 0xA1, CHR 0xD7, CHR 0xA4, CHR 0xD7, CHR 0xA8, CHR 0x5F,
      CHR 0xD7, CHR 0x92, CHR 0xD7, CHR 0xA8, CHR 0xD7, CHR 0x9E, CHR 0xD7, CHR 0x99, CHR 0x5F,
      CHR 0xD7, CHR 0xA1, CHR 0xD7, CHR 0x99, CHR 0xD7, CHR 0x91, CHR 0xD7, CHR 0x99, CHR 0xD7,
      CHR 0x9D] @
     '',\<newline>'' @
     ''      "sugar": '' @
     [CHR 0xD7, CHR 0x9E, CHR 0xD7, CHR 0xA1, CHR 0xD7, CHR 0xA4, CHR 0xD7, CHR 0xA8, CHR 0x5F,
      CHR 0xD7, CHR 0x92, CHR 0xD7, CHR 0xA8, CHR 0xD7, CHR 0x9E, CHR 0xD7, CHR 0x99, CHR 0x5F,
      CHR 0xD7, CHR 0xA1, CHR 0xD7, CHR 0x95, CHR 0xD7, CHR 0x9B, CHR 0xD7, CHR 0xA8] @
     '',\<newline>'' @
     ''      "sodium_mg": '' @
     [CHR 0xD7, CHR 0x9E, CHR 0xD7, CHR 0xA1, CHR 0xD7, CHR 0xA4, CHR 0xD7, CHR 0xA8, CHR 0x5F,
      CHR 0xD7, CHR 0x9E, CHR 0xD7, CHR 0x99, CHR 0xD7, CHR 0x9C, CHR 0xD7, CHR 0x99, CHR 0xD7,
      CHR 0x92, CHR 0xD7, CHR 0xA8, CHR 0xD7, CHR 0x9D, CHR 0x5F, CHR 0xD7, CHR 0xA0, CHR 0xD7,
      CHR 0xAA, CHR 0xD7, CHR 0xA8, CHR 0xD7, CHR 0x9F] @
     ''\<newline>'' @
     ''    }\<newline>'' @
     ''  ],\<newline>'' @
     ''  "cooking_method": "'' @
     [CHR 0xD7, CHR 0xA9, CHR 0xD7, CHR 0x99, CHR 0xD7, CHR 0x98, CHR 0xD7, CHR 0xAA, CHR 0x5F,
      CHR 0xD7, CHR 0x94, CHR 0xD7, CHR 0x9B, CHR 0xD7, CHR 0xA0, CHR 0xD7, CHR 0x94] @
     ''",\<newline>'' @
     ''  "food_category": "'' @
     [CHR 0xD7, CHR 0xA7, CHR 0xD7, CHR 0x98, CHR 0xD7, CHR 0x92, CHR 0xD7, CHR 0x95, CHR 0xD7,
      CHR 0xA8, CHR 0xD7, CHR 0x99, CHR 0xD7, CHR 0x99, CHR 0xD7, CHR 0xAA, CHR 0x5F, CHR 0xD7,
      CHR 0x9E, CHR 0xD7, CHR 0x96, CHR 0xD7, CHR 0x95, CHR 0xD7, CHR 0x9F] @
     ''",\<newline>'' @
     ''  "confidence": '' @
     [CHR 0xD7, CHR 0x9E, CHR 0xD7, CHR 0xA1, CHR 0xD7, CHR 0xA4, CHR 0xD7, CHR 0xA8, CHR 0x5F,
      CHR 0xD7, CHR 0x91, CHR 0xD7, CHR 0x99, CHR 0xD7, CHR 0x9F] @
     ''_0_'' @
     [CHR 0xD7, CHR 0x9C] @
     ''_100,\<newline>'' @
     ''  "recommendations": "'' @
     [CHR 0xD7, CHR 0x94, CHR 0xD7, CHR 0x9E, CHR 0xD7, CHR 0x9C, CHR 0xD7, CHR 0xA6, CHR 0xD7,
      CHR 0x95, CHR 0xD7, CHR 0xAA, CHR 0x5F, CHR 0xD7, CHR 0x91, CHR 0xD7, CHR 0xA8, CHR 0xD7,
      CHR 0x99, CHR 0xD7, CHR 0x90, CHR 0xD7, CHR 0x95, CHR 0xD7, CHR 0xAA, CHR 0xD7, CHR 0x99,
      CHR 0xD7, CHR 0x95, CHR 0xD7, CHR 0xAA, CHR 0x5F, CHR 0xD7, CHR 0x95, CHR 0xD7, CHR 0x94,
      CHR 0xD7, CHR 0xA2, CHR 0xD7, CHR 0xA8, CHR 0xD7, CHR 0x95, CHR 0xD7, CHR 0xAA] @
     ''"\<newline>'' @
     ''}\<newline>'' @
     ''\<newline>'' @
     [CHR 0xD7, CHR 0x97, CHR 0xD7, CHR 0xA9, CHR 0xD7, CHR 0x95, CHR 0xD7, CHR 0x91] @
     '':\<newline>'' @
     ''- '' @
     [CHR 0xD7, CHR 0x96, CHR 0xD7, CHR 0x94, CHR 0xD7, CHR 0x94, CHR 0x20, CHR 0xD7, CHR 0x9B,
      CHR 0xD7, CHR 0x9C, CHR 0x20, CHR 0xD7, CHR 0x9E, CHR 0xD7, CHR 0xA8, CHR 0xD7, CHR 0x9B,
      CHR 0xD7, CHR 0x99, CHR 0xD7, CHR 0x91, CHR 0x20, CHR 0xD7, CHR 0x91, CHR 0xD7, CHR 0xA0,
      CHR 0xD7, CHR 0xA4, CHR 0xD7, CHR 0xA8, CHR 0xD7, CHR 0x93, CHR 0x20, CHR 0xD7, CHR 0xA2,
      CHR 0xD7, CHR 0x9D, CHR 0x20, CHR 0xD7, CHR 0xA2, CHR 0xD7, CHR 0xA8, CHR 0xD7, CHR 0x9B,
      CHR 0xD7, CHR 0x99, CHR 0xD7, CHR 0x9D, CHR 0x20, CHR 0xD7, CHR 0xAA, CHR 0xD7, CHR 0x96,
      CHR 0xD7, CHR 0x95, CHR 0xD7, CHR 0xA0, CHR 0xD7, CHR 0xAA, CHR 0xD7, CHR 0x99, CHR 0xD7,
      CHR 0x99, CHR 0xD7, CHR 0x9D, CHR 0x20, CHR 0xD7, CHR 0x9E, CHR 0xD7, CHR 0x93, CHR 0xD7,
      CHR 0x95, CHR 0xD7, CHR 0x99, CHR 0xD7, CHR 0xA7, CHR 0xD7, CHR 0x99, CHR 0xD7, CHR 0x9D] @
     ''\<newline>'' @
     ''- '' @
     [CHR 0xD7, CHR 0x97, CHR 0xD7, CHR 0xA9, CHR 0xD7, CHR 0x91, CHR 0x20, CHR 0xD7, CHR 0xA2,
      CHR 0xD7, CHR 0xA8, CHR 0xD7, CHR 0x9B, CHR 0xD7, CHR 0x99, CHR 0xD7, CHR 0x9D, CHR 0x20,
      CHR 0xD7, CHR 0xAA, CHR 0xD7, CHR 0x96, CHR 0xD7, CHR 0x95, CHR 0xD7, CHR 0xA0, CHR 0xD7,
      CHR 0xAA, CHR 0xD7, CHR 0x99, CHR 0xD7, CHR 0x99, CHR 0xD7, CHR 0x9D, CHR 0x20, CHR 0xD7,
      CHR 0xA2, CHR 0xD7, CHR 0x9C, CHR 0x20, CHR 0xD7, CHR 0x91, CHR 0xD7, CHR 0xA1, CHR 0xD7,
      CHR 0x99, CHR 0xD7, CHR 0xA1, CHR 0x20, CHR 0xD7, CHR 0x9B, CHR 0xD7, CHR 0x9E, CHR 0xD7,
      CHR 0x95, CHR 0xD7, CHR 0x99, CHR 0xD7, CHR 0x95, CHR 0xD7, CHR 0xAA, CHR 0x20, CHR 0xD7,
      CHR 0x9E, CHR 0xD7, CHR 0x95, CHR 0xD7, CHR 0xA2, CHR 0xD7, CHR 0xA8, CHR 0xD7, CHR 0x9B,
      CHR 0xD7, CHR 0x95, CHR 0xD7, CHR 0xAA] @
     ''\<newline>'' @
     ''- '' @
     [CHR 0xD7, CHR 0xAA, CHR 0xD7, CHR 0x9F, CHR 0x20, CHR 0xD7, CHR 0xA2, CHR 0xD7, CHR 0xA8,
      CHR 0xD7, CHR 0x9B, CHR 0xD7, CHR 0x99, CHR 0xD7, CHR 0x9D, CHR 0x20, CHR 0xD7, CHR 0x9E,
      CHR 0xD7, CHR 0xA1, CHR 0xD7, CHR 0xA4, CHR 0xD7, CHR 0xA8, CHR 0xD7, CHR 0x99, CHR 0xD7,
      CHR 0x99, CHR 0xD7, CHR 0x9D, CHR 0x20, CHR 0xD7, CHR 0x91, CHR 0xD7, CHR 0x9C, CHR 0xD7,
      CHR 0x91, CHR 0xD7, CHR 0x93] @
     '' ('' @
     [CHR 0xD7, CHR 0x9C, CHR 0xD7, CHR 0x90, CHR 0x20, CHR 0xD7, CHR 0x98, CHR 0xD7, CHR 0xA7,
      CHR 0xD7, CHR 0xA1, CHR 0xD7, CHR 0x98] @
     '')\<newline>'' @
     ''- '' @
     [CHR 0xD7, CHR 0x95, CHR 0xD7, CHR 0x93, CHR 0xD7, CHR 0x90, CHR 0x20, CHR 0xD7, CHR 0xA9,
      CHR 0xD7, CHR 0xA1, CHR 0xD7, CHR 0x9B, CHR 0xD7, CHR 0x95, CHR 0xD7, CHR 0x9D, CHR 0x20,
      CHR 0xD7, CHR 0x94, CHR 0xD7, CHR 0x9E, CHR 0xD7, CHR 0xA8, CHR 0xD7, CHR 0x9B, CHR 0xD7,
      CHR 0x99, CHR 0xD7, CHR 0x91, CHR 0xD7, CHR 0x99, CHR 0xD7, CHR 0x9D, CHR 0x20, CHR 0xD7,
      CHR 0xAA, CHR 0xD7, CHR 0x95, CHR 0xD7, CHR 0x90, CHR 0xD7, CHR 0x9D, CHR 0x20, CHR 0xD7,
      CHR 0x9C, CHR 0xD7, CHR 0xA1, CHR 0xD7, CHR 0x9A, CHR 0x20, CHR 0xD7, CHR 0x94, CHR 0xD7,
      CHR 0x9B, CHR 0xD7, CHR 0x95, CHR 0xD7, CHR 0x9C, CHR 0xD7, CHR 0x9C] @
     ''\<newline>'' @
     ''- '' @
     [CHR 0xD7, CHR 0x94, CHR 0xD7, CHR 0xA9, CHR 0xD7, CHR 0xAA, CHR 0xD7, CHR 0x9E, CHR 0xD7,
      CHR 0xA9, CHR 0x20, CHR 0xD7, CHR 0x91, CHR 0xD7, CHR 0xA9, CHR 0xD7, CHR 0x9E, CHR 0xD7,
      CHR 0x95, CHR 0xD7, CHR 0xAA, CHR 0x20, CHR 0xD7, CHR 0xA2, CHR 0xD7, CHR 0x91, CHR 0xD7,
      CHR 0xA8, CHR 0xD7, CHR 0x99, CHR 0xD7, CHR 0x99, CHR 0xD7, CHR 0x9D, CHR 0x20, CHR 0xD7,
      CHR 0x9C, CHR 0xD7, CHR 0x9E, CHR 0xD7, CHR 0xA8, CHR 0xD7, CHR 0x9B, CHR 0xD7, CHR 0x99,
      CHR 0xD7, CHR 0x91, CHR 0xD7, CHR 0x99, CHR 0xD7, CHR 0x9D]\<close>

definition english_analysis_prompt :: string where
  \<open>english_analysis_prompt =
     ''You are a professional nutrition expert analyzing meal images. Analyze the image and return accurate JSON with this information:\<newline>'' @
     ''\<newline>'' @
     ''{\<newline>'' @
     ''  "name": "meal_name_in_english",\<newline>'' @
     ''  "description": "brief_meal_description",\<newline>'' @
     ''  "calories": total_calories_number,\<newline>'' @
     ''  "protein": total_protein_grams,\<newline>'' @
     ''  "carbs": total_carbs_grams,\<newline>'' @
     ''  "fat": total_fat_grams,\<newline>'' @
     ''  "fiber": total_fiber_grams,\<newline>'' @
     ''  "sugar": total_sugar_grams,\<newline>'' @
     ''  "sodium": total_sodium_milligrams,\<newline>'' @
     ''  "ingredients": [\<newline>'' @
     ''    {\<newline>'' @
     ''      "name": "ingredient_name",\<newline>'' @
     ''      "calories": calories_number,\<newline>'' @
     ''      "protein": protein_grams,\<newline>'' @
     ''      "carbs": carbs_grams,\<newline>'' @
     ''      "fat": fat_grams,\<newline>'' @
     ''      "fiber": fiber_grams,\<newline>'' @
     ''      "sugar": sugar_grams,\<newline>'' @
     ''      "sodium_mg": sodium_milligrams\<newline>'' @
     ''    }\<newline>'' @
     ''  ],\<newline>'' @
     ''  "cooking_method": "cooking_method",\<newline>'' @
     ''  "food_category": "food_category",\<newline>'' @
     ''  "confidence": confidence_0_to_100,\<newline>'' @
     ''  "recommendations": "health_recommendations_and_notes"\<newline>'' @
     ''}\<newline>'' @
     ''\<newline>'' @
     ''Important:\<newline>'' @
     ''- Identify each ingredient separately with accurate nutritional values\<newline>'' @
     ''- Calculate nutritional values based on estimated quantities\<newline>'' @
     ''- Provide only numeric values (no text)\<newline>'' @
     ''- Ensure ingredient totals match overall totals\<newline>'' @
     ''- Be precise with portion estimates''\<close>

definition buildAnalysisPrompt :: "bool \<Rightarrow> string" where
  "buildAnalysisPrompt isHebrew =
     (if isHebrew then hebrew_analysis_prompt else english_analysis_prompt)"

text \<open>
  What a template literal interpolates: \<^verbatim>\<open>ToString\<close> of the value, \<^verbatim>\<open>undefined\<close> giving
  its name.
\<close>

definition interpolate :: "runtime \<Rightarrow> jsval \<Rightarrow> thrown + string" where
  "interpolate rt v = (case v of None \<Rightarrow> Inr ''undefined'' | Some x \<Rightarrow> ToString rt x)"

definition length_text :: "runtime \<Rightarrow> 'a list \<Rightarrow> string" where
  "length_text rt xs = NumberToString rt (Fin (of_nat (length xs)))"

text \<open>
  The callback of \<^verbatim>\<open>editedIngredients.forEach\<close> (lines 280 to 282), as the line it
  appends. Reading \<^verbatim>\<open>ingredient.name\<close> throws on \<^verbatim>\<open>null\<close>.
\<close>

definition edited_line :: "runtime \<Rightarrow> nat \<Rightarrow> json \<Rightarrow> thrown + string" where
  \<open>edited_line rt index ingredient =
    (if ingredient = JNull then Inl (Error (null_read_message rt ''name''))
     else
      andThen (interpolate rt (getProp ingredient ''name'')) (\<lambda>s_name.
      andThen (interpolate rt (getProp ingredient ''calories'')) (\<lambda>s_calories.
      andThen (interpolate rt (getProp ingredient ''protein'')) (\<lambda>s_protein.
      Inr (''  '' @ NumberToString rt (Fin (of_nat (index + 1))) @ ''. '' @ s_name @ '': '' @ s_calories
           @ '' cal, '' @ s_protein @ ''g protein\<newline>'')))))\<close>

fun edited_lines :: "runtime \<Rightarrow> nat \<Rightarrow> json list \<Rightarrow> thrown + string" where
  "edited_lines rt index [] = Inr []"
| "edited_lines rt index (x # xs) =
     andThen (edited_line rt index x) (\<lambda>s. andThen (edited_lines rt (index + 1) xs) (\<lambda>t. Inr (s @ t)))"

text \<open>\<^verbatim>\<open>updateText\<close> and \<^verbatim>\<open>editedIngredients && editedIngredients.length > 0\<close> as conditions.\<close>

definition given_text :: "string option \<Rightarrow> bool" where
  "given_text t = (case t of None \<Rightarrow> False | Some s \<Rightarrow> s \<noteq> [])"

definition given_items :: "json list option \<Rightarrow> bool" where
  "given_items e = (case e of None \<Rightarrow> False | Some xs \<Rightarrow> length xs > 0)"

text \<open>
  The literals of \<^verbatim>\<open>buildUpdateContext\<close> (lines 267 to 287), the Hebrew and the English
  one of each pair; a template literal is a function of what it interpolates.
\<close>

definition hebrew_context_heading :: string where
  \<open>hebrew_context_heading =
     ''\<newline>\<newline>'' @
     [CHR 0xD7, CHR 0x94, CHR 0xD7, CHR 0xA7, CHR 0xD7, CHR 0xA9, CHR 0xD7, CHR 0xA8, CHR 0x20,
      CHR 0xD7, CHR 0xA0, CHR 0xD7, CHR 0x95, CHR 0xD7, CHR 0xA1, CHR 0xD7, CHR 0xA3] @
     '':\<newline>''\<close>

definition english_context_heading :: string where
  \<open>english_context_heading =
     ''\<newline>\<newline>Additional context:\<newline>''\<close>

definition hebrew_feedback_line :: "string \<Rightarrow> string" where
  \<open>hebrew_feedback_line updateText =
     ''- '' @
     [CHR 0xD7, CHR 0x94, CHR 0xD7, CHR 0x9E, CHR 0xD7, CHR 0xA9, CHR 0xD7, CHR 0xAA, CHR 0xD7,
      CHR 0x9E, CHR 0xD7, CHR 0xA9, CHR 0x20, CHR 0xD7, CHR 0x94, CHR 0xD7, CHR 0x95, CHR 0xD7,
      CHR 0xA1, CHR 0xD7, CHR 0x99, CHR 0xD7, CHR 0xA3, CHR 0x20, CHR 0xD7, CHR 0x94, CHR 0xD7,
      CHR 0xA2, CHR 0xD7, CHR 0xA8, CHR 0xD7, CHR 0x94] @
     '': "'' @ updateText @ ''"\<newline>''\<close>

definition english_feedback_line :: "string \<Rightarrow> string" where
  \<open>english_feedback_line updateText =
     ''- User provided feedback: "'' @ updateText @ ''"\<newline>''\<close>

definition hebrew_edited_heading :: "string \<Rightarrow> string" where
  \<open>hebrew_edited_heading count =
     ''- '' @
     [CHR 0xD7, CHR 0x94, CHR 0xD7, CHR 0x9E, CHR 0xD7, CHR 0xA9, CHR 0xD7, CHR 0xAA, CHR 0xD7,
      CHR 0x9E, CHR 0xD7, CHR 0xA9, CHR 0x20, CHR 0xD7, CHR 0xA2, CHR 0xD7, CHR 0xA8, CHR 0xD7,
      CHR 0x9A] @
     '' '' @ count @
     '' '' @
     [CHR 0xD7, CHR 0x9E, CHR 0xD7, CHR 0xA8, CHR 0xD7, CHR 0x9B, CHR 0xD7, CHR 0x99, CHR 0xD7,
      CHR 0x91, CHR 0xD7, CHR 0x99, CHR 0xD7, CHR 0x9D] @
     '':\<newline>''\<close>

definition english_edited_heading :: "string \<Rightarrow> string" where
  \<open>english_edited_heading count =
     ''- User edited '' @ count @ '' ingredients:\<newline>''\<close>

definition hebrew_context_closing :: string where
  \<open>hebrew_context_closing =
     ''\<newline>'' @
     [CHR 0xD7, CHR 0x90, CHR 0xD7, CHR 0xA0, CHR 0xD7, CHR 0x90, CHR 0x20, CHR 0xD7, CHR 0x94,
      CHR 0xD7, CHR 0xAA, CHR 0xD7, CHR 0x97, CHR 0xD7, CHR 0xA9, CHR 0xD7, CHR 0x91, CHR 0x20,
      CHR 0xD7, CHR 0x91, CHR 0xD7, CHR 0x9E, CHR 0xD7, CHR 0x99, CHR 0xD7, CHR 0x93, CHR 0xD7,
      CHR 0xA2, CHR 0x20, CHR 0xD7, CHR 0x96, CHR 0xD7, CHR 0x94, CHR 0x20, CHR 0xD7, CHR 0x91,
      CHR 0xD7, CHR 0xA2, CHR 0xD7, CHR 0xAA, CHR 0x20, CHR 0xD7, CHR 0xA2, CHR 0xD7, CHR 0x93,
      CHR 0xD7, CHR 0x9B, CHR 0xD7, CHR 0x95, CHR 0xD7, CHR 0x9F, CHR 0x20, CHR 0xD7, CHR 0x94,
      CHR 0xD7, CHR 0xA0, CHR 0xD7, CHR 0x99, CHR 0xD7, CHR 0xAA, CHR 0xD7, CHR 0x95, CHR 0xD7,
      CHR 0x97] @
     ''.''\<close>

definition english_context_closing :: string where
  \<open>english_context_closing =
     ''\<newline>Please incorporate this information when updating the analysis.''\<close>

text \<open>\<^verbatim>\<open>buildUpdateContext\<close> (lines 262 to 290).\<close>

definition buildUpdateContext ::
    "runtime \<Rightarrow> string option \<Rightarrow> json list option \<Rightarrow> bool \<Rightarrow> thrown + string" where
  "buildUpdateContext rt updateText editedIngredients isHebrew =
    (let context0 = (if isHebrew then hebrew_context_heading else english_context_heading);
         context1 =
           (if given_text updateText then
              context0 @
              (if isHebrew then hebrew_feedback_line (the updateText)
               else english_feedback_line (the updateText))
            else context0);
         closing = (if isHebrew then hebrew_context_closing else english_context_closing)
     in if given_items editedIngredients then
          andThen (edited_lines rt 0 (the editedIngredients)) (\<lambda>lines.
            Inr (context1 @
                 (if isHebrew then hebrew_edited_heading (length_text rt (the editedIngredients))
                  else english_edited_heading (length_text rt (the editedIngredients)))
                 @ lines @ closing))
        else Inr (context1 @ closing))"

text \<open>
  The literals of \<^verbatim>\<open>buildUpdatePrompt\<close> (lines 297 to 307). The text that
  \<^verbatim>\<open>originalData\<close> interpolates is that of \<^verbatim>\<open>JSON.stringify(originalAnalysis, null, 2)\<close>.
\<close>

definition hebrew_update_base_prompt :: string where
  \<open>hebrew_update_base_prompt =
     [CHR 0xD7, CHR 0x90, CHR 0xD7, CHR 0xAA, CHR 0xD7, CHR 0x94, CHR 0x20, CHR 0xD7, CHR 0x9E,
      CHR 0xD7, CHR 0x95, CHR 0xD7, CHR 0x9E, CHR 0xD7, CHR 0x97, CHR 0xD7, CHR 0x94, CHR 0x20,
      CHR 0xD7, CHR 0xAA, CHR 0xD7, CHR 0x96, CHR 0xD7, CHR 0x95, CHR 0xD7, CHR 0xA0, CHR 0xD7,
      CHR 0x94, CHR 0x20, CHR 0xD7, CHR 0x94, CHR 0xD7, CHR 0x9E, CHR 0xD7, CHR 0xA2, CHR 0xD7,
      CHR 0x93, CHR 0xD7, CHR 0x9B, CHR 0xD7, CHR 0x9F, CHR 0x20, CHR 0xD7, CHR 0xA0, CHR 0xD7,
      CHR 0x99, CHR 0xD7, CHR 0xAA, CHR 0xD7, CHR 0x95, CHR 0xD7, CHR 0x97, CHR 0x20, CHR 0xD7,
      CHR 0x90, CHR 0xD7, CHR 0xA8, CHR 0xD7, CHR 0x95, CHR 0xD7, CHR 0x97, CHR 0xD7, CHR 0x94,
      CHR 0x20, CHR 0xD7, CHR 0xA7, CHR 0xD7, CHR 0x99, CHR 0xD7, CHR 0x99, CHR 0xD7, CHR 0x9D,
      CHR 0x20, CHR 0xD7, CHR 0xA2, CHR 0xD7, CHR 0x9C, CHR 0x20, CHR 0xD7, CHR 0x91, CHR 0xD7,
      CHR 0xA1, CHR 0xD7, CHR 0x99, CHR 0xD7, CHR 0xA1, CHR 0x20, CHR 0xD7, CHR 0x9E, CHR 0xD7,
      CHR 0xA9, CHR 0xD7, CHR 0x95, CHR 0xD7, CHR 0x91, CHR 0x20, CHR 0xD7, CHR 0x9E, CHR 0xD7,
      CHR 0x94, CHR 0xD7, CHR 0x9E, CHR 0xD7, CHR 0xA9, CHR 0xD7, CHR 0xAA, CHR 0xD7, CHR 0x9E,
      CHR 0xD7, CHR 0xA9] @
     ''.''\<close>

definition english_update_base_prompt :: string where
  \<open>english_update_base_prompt =
     ''You are a nutrition expert updating an existing meal analysis based on user feedback.''\<close>

definition hebrew_original_data :: "string \<Rightarrow> string" where
  \<open>hebrew_original_data stringified =
     ''\<newline>\<newline>'' @
     [CHR 0xD7, CHR 0xA0, CHR 0xD7, CHR 0x99, CHR 0xD7, CHR 0xAA, CHR 0xD7, CHR 0x95, CHR 0xD7,
      CHR 0x97, CHR 0x20, CHR 0xD7, CHR 0x9E, CHR 0xD7, CHR 0xA7, CHR 0xD7, CHR 0x95, CHR 0xD7,
      CHR 0xA8, CHR 0xD7, CHR 0x99] @
     '':\<newline>'' @ stringified\<close>

definition english_original_data :: "string \<Rightarrow> string" where
  \<open>english_original_data stringified =
     ''\<newline>\<newline>Original analysis:\<newline>'' @ stringified\<close>

definition hebrew_update_instruction :: "string \<Rightarrow> string" where
  \<open>hebrew_update_instruction updateText =
     ''\<newline>\<newline>'' @
     [CHR 0xD7, CHR 0x9E, CHR 0xD7, CHR 0xA9, CHR 0xD7, CHR 0x95, CHR 0xD7, CHR 0x91, CHR 0x20,
      CHR 0xD7, CHR 0x9E, CHR 0xD7, CHR 0x94, CHR 0xD7, CHR 0x9E, CHR 0xD7, CHR 0xA9, CHR 0xD7,
      CHR 0xAA, CHR 0xD7, CHR 0x9E, CHR 0xD7, CHR 0xA9] @
     '': "'' @ updateText @
     ''"\<newline>\<newline>'' @
     [CHR 0xD7, CHR 0x90, CHR 0xD7, CHR 0xA0, CHR 0xD7, CHR 0x90, CHR 0x20, CHR 0xD7, CHR 0xA2,
      CHR 0xD7, CHR 0x93, CHR 0xD7, CHR 0x9B, CHR 0xD7, CHR 0x9F, CHR 0x20, CHR 0xD7, CHR 0x90,
      CHR 0xD7, CHR 0xAA, CHR 0x20, CHR 0xD7, CHR 0x94, CHR 0xD7, CHR 0xA0, CHR 0xD7, CHR 0x99,
      CHR 0xD7, CHR 0xAA, CHR 0xD7, CHR 0x95, CHR 0xD7, CHR 0x97, CHR 0x20, CHR 0xD7, CHR 0x91,
      CHR 0xD7, CHR 0x94, CHR 0xD7, CHR 0xAA, CHR 0xD7, CHR 0x90, CHR 0xD7, CHR 0x9D, CHR 0x20,
      CHR 0xD7, CHR 0x9C, CHR 0xD7, CHR 0x9E, CHR 0xD7, CHR 0xA9, CHR 0xD7, CHR 0x95, CHR 0xD7,
      CHR 0x91, CHR 0x20, CHR 0xD7, CHR 0x95, CHR 0xD7, CHR 0x94, CHR 0xD7, CHR 0x97, CHR 0xD7,
      CHR 0x96, CHR 0xD7, CHR 0xA8] @
     '' JSON '' @
     [CHR 0xD7, CHR 0x9E, CHR 0xD7, CHR 0xA2, CHR 0xD7, CHR 0x95, CHR 0xD7, CHR 0x93, CHR 0xD7,
      CHR 0x9B, CHR 0xD7, CHR 0x9F, CHR 0x20, CHR 0xD7, CHR 0x91, CHR 0xD7, CHR 0x90, CHR 0xD7,
      CHR 0x95, CHR 0xD7, CHR 0xAA, CHR 0xD7, CHR 0x95, CHR 0x20, CHR 0xD7, CHR 0xA4, CHR 0xD7,
      CHR 0x95, CHR 0xD7, CHR 0xA8, CHR 0xD7, CHR 0x9E, CHR 0xD7, CHR 0x98] @
     ''.''\<close>

definition english_update_instruction :: "string \<Rightarrow> string" where
  \<open>english_update_instruction updateText =
     ''\<newline>\<newline>User feedback: "'' @ updateText @
     ''"\<newline>\<newline>Please update the analysis according to the feedback and return updated JSON in the same format.''\<close>

text \<open>\<^verbatim>\<open>buildUpdatePrompt\<close> (lines 292 to 310).\<close>

definition buildUpdatePrompt :: "runtime \<Rightarrow> json \<Rightarrow> string \<Rightarrow> bool \<Rightarrow> string" where
  "buildUpdatePrompt rt originalAnalysis updateText isHebrew =
    (let basePrompt =
           (if isHebrew then hebrew_update_base_prompt else english_update_base_prompt);
         originalData =
           (if isHebrew then hebrew_original_data (JSON_stringify rt originalAnalysis)
            else english_original_data (JSON_stringify rt originalAnalysis));
         updateInstruction =
           (if isHebrew then hebrew_update_instruction updateText
            else english_update_instruction updateText)
     in basePrompt @ originalData @ updateInstruction)"

section \<open>The service\<close>

text \<open>
  The request that \<^verbatim>\<open>openai.chat.completions.create\<close> is given, and the part of its
  response that the service reads, \<^verbatim>\<open>response.choices[0]?.message?.content\<close>.
\<close>

datatype content_part = TextPart string | ImageUrlPart string string

datatype message_content = Plain string | Parts "content_part list"

record chat_message =
  role :: string
  content :: message_content

record request =
  model :: string
  messages :: "chat_message list"
  max_tokens :: jsnum
  temperature :: jsnum

datatype reply_message = ReplyMessage "string option"

datatype choice = Choice "reply_message option"

datatype completion = Completion "choice list"

fun first_content :: "completion \<Rightarrow> string option" where
  "first_content (Completion []) = None"
| "first_content (Completion (Choice None # cs)) = None"
| "first_content (Completion (Choice (Some (ReplyMessage c)) # cs)) = c"

text \<open>
  What the module finds around it: the client handle \<^verbatim>\<open>openai\<close> of line 5, which is
  \<^verbatim>\<open>null\<close> or gives the remote call; the value of \<^verbatim>\<open>process.env.OPENAI_API_KEY\<close> at
  the time of the call; and \<^verbatim>\<open>extractCleanJSON\<close>, imported from \<^verbatim>\<open>../utils/openai\<close>,
  which is not part of the service.
\<close>

record module_env =
  openai :: "(request \<Rightarrow> thrown + completion) option"
  OPENAI_API_KEY :: "string option"
  extractCleanJSON :: "string \<Rightarrow> thrown + string"

text \<open>The guard \<^verbatim>\<open>!openai || !process.env.OPENAI_API_KEY\<close> of lines 18, 116 and 160.\<close>

definition not_configured :: "module_env \<Rightarrow> bool" where
  "not_configured env = (openai env = None \<or> \<not> given_text (OPENAI_API_KEY env))"

text \<open>\<^verbatim>\<open>error.message.includes(needle)\<close>.\<close>

fun js_includes :: "string \<Rightarrow> string \<Rightarrow> bool" where
  "js_includes [] needle = (needle = [])"
| "js_includes (c # cs) needle = (take (length needle) (c # cs) = needle \<or> js_includes cs needle)"

text \<open>
  An operation gives its outcome and the requests it sent, in order. Of the console only
  the reads that can throw are kept.
\<close>

type_synonym 'a outcome = "(thrown + 'a) \<times> request list"

subsection \<open>\<^verbatim>\<open>analyzeMealImage\<close> (lines 12 to 109)\<close>

text \<open>The text of the user message (lines 48 to 50).\<close>

definition analyze_user_text :: "runtime \<Rightarrow> string option \<Rightarrow> json list option \<Rightarrow> string" where
  \<open>analyze_user_text rt updateText editedIngredients =
    (if given_text updateText then
       ''Please analyze this meal image and incorporate the following user feedback: "'' @
       the updateText @ ''". '' @
       (if given_items editedIngredients then
          ''The user has also provided '' @ length_text rt (the editedIngredients) @
          '' edited ingredients.''
        else [])
     else ''Please analyze this meal image and provide detailed nutritional information.'')\<close>

text \<open>Lines 31 to 36: the system prompt, with the context of an update or an edit.\<close>

definition analysis_system_prompt ::
    "runtime \<Rightarrow> bool \<Rightarrow> string option \<Rightarrow> json list option \<Rightarrow> thrown + string" where
  "analysis_system_prompt rt isHebrew updateText editedIngredients =
    (if given_text updateText \<or> given_items editedIngredients then
       andThen (buildUpdateContext rt updateText editedIngredients isHebrew)
         (\<lambda>context. Inr (buildAnalysisPrompt isHebrew @ context))
     else Inr (buildAnalysisPrompt isHebrew))"

text \<open>Lines 65 to 70.\<close>

definition analysis_request :: "runtime \<Rightarrow> string \<Rightarrow> string \<Rightarrow> string \<Rightarrow> request" where
  "analysis_request rt analysisPrompt user_text imageBase64 =
     \<lparr> model = ''gpt-4o'',
       messages =
         [ \<lparr> role = ''system'', content = Plain analysisPrompt \<rparr>,
           \<lparr> role = ''user'',
             content = Parts [TextPart user_text,
                              ImageUrlPart (''data:image/jpeg;base64,'' @ imageBase64) ''high''] \<rparr> ],
       max_tokens = Fin 2000,
       temperature = fl rt (1 / 10) \<rparr>"

text \<open>
  Lines 72 to 92. Line 85 reads \<^verbatim>\<open>parsedResult.name\<close> for the console, which throws on
  \<^verbatim>\<open>null\<close>.
\<close>

definition analysis_of_response ::
    "runtime \<Rightarrow> module_env \<Rightarrow> bool \<Rightarrow> completion \<Rightarrow> thrown + MealAnalysisResult" where
  "analysis_of_response rt env isHebrew response =
    (if \<not> given_text (first_content response) then Inl (Error ''No response content from OpenAI'')
     else
       andThen (extractCleanJSON env (the (first_content response))) (\<lambda>cleanedJSON.
       andThen (JSON_parse rt cleanedJSON) (\<lambda>parsedResult.
       if parsedResult = JNull then Inl (Error (null_read_message rt ''name''))
       else
         andThen (normalizeAnalysisResult rt parsedResult isHebrew) (\<lambda>normalizedResult.
         Inr (fst normalizedResult)))))"

text \<open>The body of the \<^verbatim>\<open>try\<close> (lines 22 to 93), given the remote call.\<close>

definition analyzeMealImage_try ::
    "runtime \<Rightarrow> module_env \<Rightarrow> (request \<Rightarrow> thrown + completion) \<Rightarrow> string \<Rightarrow> string \<Rightarrow>
     string option \<Rightarrow> json list option \<Rightarrow> MealAnalysisResult outcome" where
  "analyzeMealImage_try rt env create imageBase64 language updateText editedIngredients =
    (let isHebrew = (language = ''hebrew'')
     in case analysis_system_prompt rt isHebrew updateText editedIngredients of
          Inl e \<Rightarrow> (Inl e, [])
        | Inr analysisPrompt \<Rightarrow>
            (let req = analysis_request rt analysisPrompt
                         (analyze_user_text rt updateText editedIngredients) imageBase64
             in (andThen (create req) (analysis_of_response rt env isHebrew), [req])))"

text \<open>The \<^verbatim>\<open>catch\<close> (lines 94 to 108): what it throws for what it caught.\<close>

definition analyzeMealImage_catch :: "thrown \<Rightarrow> thrown" where
  "analyzeMealImage_catch error =
    (case error of
       Error message \<Rightarrow>
         if js_includes message ''quota'' then
           Error ''AI analysis quota exceeded. Please try again later.''
         else if js_includes message ''rate limit'' then
           Error ''Too many requests. Please wait a moment and try again.''
         else if js_includes message ''invalid_request_error'' then
           Error ''Invalid image format. Please try a different image.''
         else Error ''AI analysis failed. Please try again.''
     | NonError \<Rightarrow> Error ''AI analysis failed. Please try again.'')"

text \<open>The parameter \<^verbatim>\<open>language\<close> has the default \<^verbatim>\<open>"english"\<close>.\<close>

definition language_or_default :: "string option \<Rightarrow> string" where
  "language_or_default language = (case language of None \<Rightarrow> ''english'' | Some l \<Rightarrow> l)"

definition analyzeMealImage ::
    "runtime \<Rightarrow> module_env \<Rightarrow> string \<Rightarrow> string option \<Rightarrow> string option \<Rightarrow> json list option \<Rightarrow>
     MealAnalysisResult outcome" where
  "analyzeMealImage rt env imageBase64 language updateText editedIngredients =
    (if not_configured env then (Inl (Error ''OpenAI API key not configured''), [])
     else
       case analyzeMealImage_try rt env (the (openai env)) imageBase64
              (language_or_default language) updateText editedIngredients of
         (Inl error, sent) \<Rightarrow> (Inl (analyzeMealImage_catch error), sent)
       | (Inr normalizedResult, sent) \<Rightarrow> (Inr normalizedResult, sent))"

subsection \<open>\<^verbatim>\<open>updateMealAnalysis\<close> (lines 111 to 157)\<close>

definition update_request :: "runtime \<Rightarrow> string \<Rightarrow> string \<Rightarrow> request" where
  \<open>update_request rt updatePrompt updateText =
     \<lparr> model = ''gpt-4o'',
       messages =
         [ \<lparr> role = ''system'', content = Plain updatePrompt \<rparr>,
           \<lparr> role = ''user'',
             content = Plain (''Please update the meal analysis based on this feedback: "'' @
                              updateText @ ''"'') \<rparr> ],
       max_tokens = Fin 1500,
       temperature = fl rt (1 / 10) \<rparr>\<close>

text \<open>Lines 143 to 151.\<close>

definition update_of_response ::
    "runtime \<Rightarrow> module_env \<Rightarrow> bool \<Rightarrow> completion \<Rightarrow> thrown + MealAnalysisResult" where
  "update_of_response rt env isHebrew response =
    (if \<not> given_text (first_content response) then Inl (Error ''No response content from OpenAI'')
     else
       andThen (extractCleanJSON env (the (first_content response))) (\<lambda>cleanedJSON.
       andThen (JSON_parse rt cleanedJSON) (\<lambda>parsedResult.
       andThen (normalizeAnalysisResult rt parsedResult isHebrew) (\<lambda>normalizedResult.
       Inr (fst normalizedResult)))))"

definition updateMealAnalysis_try ::
    "runtime \<Rightarrow> module_env \<Rightarrow> (request \<Rightarrow> thrown + completion) \<Rightarrow> json \<Rightarrow> string \<Rightarrow> string \<Rightarrow>
     MealAnalysisResult outcome" where
  "updateMealAnalysis_try rt env create originalAnalysis updateText language =
    (let isHebrew = (language = ''hebrew'');
         updatePrompt = buildUpdatePrompt rt originalAnalysis updateText isHebrew;
         req = update_request rt updatePrompt updateText
     in (andThen (create req) (update_of_response rt env isHebrew), [req]))"

definition updateMealAnalysis_catch :: "thrown \<Rightarrow> thrown" where
  "updateMealAnalysis_catch error = Error ''Failed to update meal analysis''"

definition updateMealAnalysis ::
    "runtime \<Rightarrow> module_env \<Rightarrow> json \<Rightarrow> string \<Rightarrow> string option \<Rightarrow> MealAnalysisResult outcome" where
  "updateMealAnalysis rt env originalAnalysis updateText language =
    (if not_configured env then (Inl (Error ''OpenAI API key not configured''), [])
     else
       case updateMealAnalysis_try rt env (the (openai env)) originalAnalysis updateText
              (language_or_default language) of
         (Inl error, sent) \<Rightarrow> (Inl (updateMealAnalysis_catch error), sent)
       | (Inr normalizedResult, sent) \<Rightarrow> (Inr normalizedResult, sent))"

subsection \<open>\<^verbatim>\<open>generateText\<close> (lines 159 to 182)\<close>

text \<open>The parameter \<^verbatim>\<open>maxTokens\<close> has the default 1000.\<close>

definition generate_request :: "runtime \<Rightarrow> string \<Rightarrow> jsnum option \<Rightarrow> request" where
  "generate_request rt prompt maxTokens =
     \<lparr> model = ''gpt-4o'',
       messages = [ \<lparr> role = ''user'', content = Plain prompt \<rparr> ],
       max_tokens = (case maxTokens of None \<Rightarrow> Fin 1000 | Some m \<Rightarrow> m),
       temperature = fl rt (7 / 10) \<rparr>"

definition generateText_try ::
    "runtime \<Rightarrow> (request \<Rightarrow> thrown + completion) \<Rightarrow> string \<Rightarrow> jsnum option \<Rightarrow> string outcome" where
  "generateText_try rt create prompt maxTokens =
    (let req = generate_request rt prompt maxTokens
     in (andThen (create req)
           (\<lambda>response. Inr (if given_text (first_content response)
                             then the (first_content response) else [])),
         [req]))"

text \<open>The \<^verbatim>\<open>catch\<close> of lines 178 to 181 throws what it caught.\<close>

definition generateText_catch :: "thrown \<Rightarrow> thrown" where
  "generateText_catch error = error"

definition generateText ::
    "runtime \<Rightarrow> module_env \<Rightarrow> string \<Rightarrow> jsnum option \<Rightarrow> string outcome" where
  "generateText rt env prompt maxTokens =
    (if not_configured env then (Inl (Error ''OpenAI API key not configured''), [])
     else
       case generateText_try rt (the (openai env)) prompt maxTokens of
         (Inl error, sent) \<Rightarrow> (Inl (generateText_catch error), sent)
       | (Inr text, sent) \<Rightarrow> (Inr text, sent))"

section \<open>Notions of the specification\<close>

text \<open>
  A field of the reply is missing or non-numeric: it is not there, or \<^verbatim>\<open>Number\<close> makes NaN
  of it.
\<close>

definition missing_or_non_numeric :: "runtime \<Rightarrow> jsval \<Rightarrow> bool" where
  "missing_or_non_numeric rt v = (v = None \<or> Number rt v = Inr NaN)"

text \<open>
  What an optional Number of the record is for a field of the reply that is absent or holds
  a number: absent for an absent field and for zero, the number otherwise.
\<close>

definition kept_unless_zero :: "jsval \<Rightarrow> jsnum option \<Rightarrow> bool" where
  "kept_unless_zero v out =
     (case v of
        None \<Rightarrow> out = None
      | Some (JNum x) \<Rightarrow> out = (if x = Fin 0 \<or> x = NaN then None else Some x)
      | Some other \<Rightarrow> True)"

text \<open>An ingredient of the reply gives the number \<open>x\<close> under exactly one of two names.\<close>

definition only_under :: "json \<Rightarrow> string \<Rightarrow> string \<Rightarrow> jsnum \<Rightarrow> bool" where
  "only_under item a b x =
     ((getProp item a = Some (JNum x) \<and> getProp item b = None) \<or>
      (getProp item a = None \<and> getProp item b = Some (JNum x)))"

text \<open>The system message of a request: the content of its first message.\<close>

definition system_prompt_of :: "request \<Rightarrow> message_content option" where
  "system_prompt_of req =
     (case messages req of
        [] \<Rightarrow> None
      | m # ms \<Rightarrow> if role m = ''system'' then Some (content m) else None)"

text \<open>
  A plain reply: one that is not \<^verbatim>\<open>null\<close>, whose fields that \<^verbatim>\<open>Number\<close> is applied to
  are absent, \<^verbatim>\<open>null\<close>, booleans, numbers or strings, and whose ingredients, if it has an
  array of them, are so as well. The keys are those of lines 320 to 327 and 368 to 379 for
  the meal, and of lines 333 to 350 for an ingredient.
\<close>

fun primitive :: "jsval \<Rightarrow> bool" where
  "primitive (Some (JArr xs)) = False"
| "primitive (Some (JObj kvs)) = False"
| "primitive v = True"

definition meal_number_keys :: "string list" where
  "meal_number_keys =
     [''calories'', ''protein'', ''carbs'', ''fat'', ''fiber'', ''sugar'', ''sodium'', ''confidence'',
      ''saturated_fats_g'', ''polyunsaturated_fats_g'', ''monounsaturated_fats_g'', ''omega_3_g'',
      ''omega_6_g'', ''soluble_fiber_g'', ''insoluble_fiber_g'', ''cholesterol_mg'', ''alcohol_g'',
      ''caffeine_mg'', ''liquids_ml'', ''serving_size_g'']"

definition ingredient_number_keys :: "string list" where
  "ingredient_number_keys =
     [''calories'', ''protein'', ''protein_g'', ''carbs'', ''carbs_g'', ''fat'', ''fats_g'',
      ''fiber'', ''fiber_g'', ''sugar'', ''sugar_g'', ''sodium_mg'', ''sodium'', ''cholesterol_mg'',
      ''saturated_fats_g'', ''polyunsaturated_fats_g'', ''monounsaturated_fats_g'', ''omega_3_g'',
      ''omega_6_g'', ''soluble_fiber_g'', ''insoluble_fiber_g'', ''alcohol_g'', ''caffeine_mg'',
      ''serving_size_g'']"

definition plain_ingredient :: "json \<Rightarrow> bool" where
  "plain_ingredient item =
     (item \<noteq> JNull \<and> list_all (\<lambda>k. primitive (getProp item k)) ingredient_number_keys)"

definition plain_reply :: "json \<Rightarrow> bool" where
  "plain_reply result =
     (result \<noteq> JNull
      \<and> list_all (\<lambda>k. primitive (getProp result k)) meal_number_keys
      \<and> (case getProp result ''ingredients'' of
            Some (JArr items) \<Rightarrow> list_all plain_ingredient items
          | _ \<Rightarrow> True))"

text \<open>
  The same for a field of the record that takes any value (lines 383 and 384 fill
  \<^verbatim>\<open>glycemic_index\<close> and \<^verbatim>\<open>insulin_index\<close> with \<^verbatim>\<open>.. || undefined\<close>).
\<close>

definition value_kept_unless_zero :: "jsval \<Rightarrow> jsval \<Rightarrow> bool" where
  "value_kept_unless_zero v out =
     (case v of
        None \<Rightarrow> out = None
      | Some (JNum x) \<Rightarrow> out = (if x = Fin 0 \<or> x = NaN then None else Some (JNum x))
      | Some other \<Rightarrow> True)"

text \<open>
  The names of a record are those of the parsed reply, and where the reply has no name,
  or a falsy one, the placeholder of the language: of lines 318 and 332, the Hebrew literal
  for Hebrew and the English one otherwise.
\<close>

definition named_by_language :: "bool \<Rightarrow> json \<Rightarrow> MealAnalysisResult \<Rightarrow> bool" where
  "named_by_language isHebrew parsedResult normalized =
     (name normalized =
        or_else (getProp parsedResult ''name'')
          (JStr (if isHebrew then hebrew_unknown_meal else ''Unknown meal''))
      \<and> (case getProp parsedResult ''ingredients'' of
            Some (JArr items) \<Rightarrow>
              \<forall>i < length items.
                Ingredient.name (ingredients normalized ! i) =
                  or_else (getProp (items ! i) ''name'')
                    (JStr (if isHebrew then hebrew_unknown_ingredient
                           else ''Unknown ingredient''))
          | _ \<Rightarrow> True))"

text \<open>The messages that the \<^verbatim>\<open>catch\<close> of \<^verbatim>\<open>analyzeMealImage\<close> throws (lines 99 to 107).\<close>

definition user_facing_errors :: "thrown list" where
  "user_facing_errors =
     [ Error ''AI analysis quota exceeded. Please try again later.'',
       Error ''Too many requests. Please wait a moment and try again.'',
       Error ''Invalid image format. Please try a different image.'',
       Error ''AI analysis failed. Please try again.'' ]"

section \<open>Worked examples\<close>

text \<open>
  A runtime for the examples. Its arithmetic is exact, as that of doubles is on the small
  integers of the examples. It reads a string of decimal digits as a Number and the empty
  string as zero, any other string as NaN; it prints a finite Number by the integer part of
  its magnitude; its parser knows the texts \<^verbatim>\<open>{}\<close>, \<^verbatim>\<open>null\<close> and
  \<^verbatim>\<open>{"ingredients":[{}]}\<close>, and its printer the empty object.
\<close>

definition digit_of :: "char \<Rightarrow> nat option" where
  "digit_of c =
     (if 48 \<le> (of_char c :: nat) \<and> (of_char c :: nat) \<le> 57 then Some (of_char c - 48) else None)"

fun unsigned_decimal :: "nat \<Rightarrow> string \<Rightarrow> nat option" where
  "unsigned_decimal acc [] = Some acc"
| "unsigned_decimal acc (c # cs) =
     (case digit_of c of None \<Rightarrow> None | Some d \<Rightarrow> unsigned_decimal (10 * acc + d) cs)"

fun decimal_text :: "nat \<Rightarrow> string" where
  "decimal_text n =
     (if n < 10 then [''0123456789'' ! n]
      else decimal_text (n div 10) @ [''0123456789'' ! (n mod 10)])"

definition demo_runtime :: runtime where
  \<open>demo_runtime =
     \<lparr> fl = Fin,
       StringToNumber =
         (\<lambda>s. case unsigned_decimal 0 s of None \<Rightarrow> NaN | Some n \<Rightarrow> Fin (of_nat n)),
       NumberToString =
         (\<lambda>n. case n of
                NaN \<Rightarrow> ''NaN''
              | PosInf \<Rightarrow> ''Infinity''
              | NegInf \<Rightarrow> ''-Infinity''
              | Fin q \<Rightarrow> (if q < 0 then ''-'' else []) @ decimal_text (nat \<lfloor>\<bar>q\<bar>\<rfloor>)),
       JSON_parse =
         (\<lambda>s. if s = ''{}'' then Inr (JObj [])
              else if s = ''null'' then Inr JNull
              else if s = ''{"ingredients":[{}]}'' then Inr (JObj [(''ingredients'', JArr [JObj []])])
              else Inl (Error ''Unexpected token'')),
       JSON_stringify = (\<lambda>v. if v = JObj [] then ''{}'' else ''null''),
       null_read_message =
         (\<lambda>k. ''Cannot read properties of null (reading '' @ k @ '')''),
       to_primitive_message = ''Cannot convert object to primitive value'' \<rparr>\<close>

text \<open>
  A reply with a meal of 300 calories and two ingredients of 100 and 50, the first of
  which names each of six nutrients by one alias only.
\<close>

definition demo_items :: "json list" where
  "demo_items =
     [ JObj [ (''name'', JStr ''Bread''),
              (''calories'', JNum (Fin 100)),
              (''protein_g'', JNum (Fin 4)),
              (''carbs'', JNum (Fin 20)),
              (''fats_g'', JNum (Fin 1)),
              (''fiber'', JNum (Fin 3)),
              (''sugar_g'', JNum (Fin 2)),
              (''sodium'', JNum (Fin 120)) ],
       JObj [ (''calories'', JNum (Fin 50)) ] ]"

definition demo_reply :: json where
  "demo_reply =
     JObj [ (''name'', JStr ''Toast''),
            (''calories'', JNum (Fin 300)),
            (''protein'', JNum (Fin 10)),
            (''sodium'', JStr ''a pinch''),
            (''saturated_fats_g'', JNum (Fin (5 / 2))),
            (''omega_3_g'', JNum (Fin 0)),
            (''ingredients'', JArr demo_items) ]"

text \<open>
  Remote calls that answer with a meal of one ingredient, neither of them named, with no
  text, and with an error.
\<close>

definition demo_create_ok :: "request \<Rightarrow> thrown + completion" where
  \<open>demo_create_ok req =
     Inr (Completion [Choice (Some (ReplyMessage (Some ''{"ingredients":[{}]}'')))])\<close>

definition demo_create_empty :: "request \<Rightarrow> thrown + completion" where
  "demo_create_empty req = Inr (Completion [Choice (Some (ReplyMessage None))])"

definition demo_create_quota :: "request \<Rightarrow> thrown + completion" where
  "demo_create_quota req = Inl (Error ''You exceeded your current quota'')"

definition demo_env :: "(request \<Rightarrow> thrown + completion) \<Rightarrow> module_env" where
  "demo_env create =
     \<lparr> openai = Some create, OPENAI_API_KEY = Some ''sk-demo'', extractCleanJSON = Inr \<rparr>"

text \<open>The client was built when the module was loaded; the credential has since been emptied.\<close>

definition demo_env_no_key :: module_env where
  "demo_env_no_key =
     \<lparr> openai = Some demo_create_ok, OPENAI_API_KEY = Some [], extractCleanJSON = Inr \<rparr>"

text \<open>What normalization makes of an ingredient and of a reply that say nothing, in English.\<close>

definition blank_ingredient :: Ingredient where
  "blank_ingredient =
     \<lparr> Ingredient.name = JStr ''Unknown ingredient'',
       Ingredient.calories = Fin 0, Ingredient.protein = Fin 0, Ingredient.carbs = Fin 0,
       Ingredient.fat = Fin 0, Ingredient.fiber = Fin 0, Ingredient.sugar = Fin 0,
       Ingredient.sodium_mg = Fin 0, Ingredient.cholesterol_mg = Fin 0,
       Ingredient.saturated_fats_g = Fin 0, Ingredient.polyunsaturated_fats_g = Fin 0,
       Ingredient.monounsaturated_fats_g = Fin 0, Ingredient.omega_3_g = Fin 0,
       Ingredient.omega_6_g = Fin 0, Ingredient.soluble_fiber_g = Fin 0,
       Ingredient.insoluble_fiber_g = Fin 0, Ingredient.alcohol_g = Fin 0,
       Ingredient.caffeine_mg = Fin 0, Ingredient.serving_size_g = Fin 0,
       Ingredient.glycemic_index = JNull, Ingredient.insulin_index = JNull,
       Ingredient.vitamins_json = JObj [], Ingredient.micronutrients_json = JObj [],
       Ingredient.allergens_json = JObj [] \<rparr>"

definition blank_meal :: MealAnalysisResult where
  "blank_meal =
     \<lparr> name = JStr ''Unknown meal'', description = JStr [],
       calories = Fin 0, protein = Fin 0, carbs = Fin 0, fat = Fin 0, fiber = Fin 0,
       sugar = Fin 0, sodium = Fin 0, confidence = Fin 75,
       ingredients = [],
       cooking_method = JStr [], food_category = JStr [], recommendations = JStr [],
       servingSize = JStr ''1 serving'', cookingMethod = JStr [], healthNotes = JStr [],
       saturated_fats_g = None, polyunsaturated_fats_g = None, monounsaturated_fats_g = None,
       omega_3_g = None, omega_6_g = None, soluble_fiber_g = None, insoluble_fiber_g = None,
       cholesterol_mg = None, alcohol_g = None, caffeine_mg = None, liquids_ml = None,
       serving_size_g = None,
       allergens_json = JObj [], vitamins_json = JObj [], micronutrients_json = JObj [],
       glycemic_index = None, insulin_index = None, processing_level = JStr [],
       additives_json = JObj [], health_risk_notes = None \<rparr>"

text \<open>What normalization makes of \<open>demo_reply\<close>, and what it prints.\<close>

definition demo_normalized :: MealAnalysisResult where
  "demo_normalized =
     blank_meal
       \<lparr> name := JStr ''Toast'', calories := Fin 300, protein := Fin 10,
         saturated_fats_g := Some (Fin (5 / 2)),
         ingredients :=
           [ blank_ingredient
               \<lparr> Ingredient.name := JStr ''Bread'', Ingredient.calories := Fin 100,
                 Ingredient.protein := Fin 4, Ingredient.carbs := Fin 20,
                 Ingredient.fat := Fin 1, Ingredient.fiber := Fin 3,
                 Ingredient.sugar := Fin 2, Ingredient.sodium_mg := Fin 120 \<rparr>,
             blank_ingredient \<lparr> Ingredient.calories := Fin 50 \<rparr> ] \<rparr>"

definition demo_warning :: Warning where
  "demo_warning =
     \<lparr> mealCalories = Fin 300, ingredientCalories = Fin 150, difference = Fin 150 \<rparr>"

text \<open>
  An edited ingredient, and the system prompt and user text of a Hebrew call that passes it
  with the feedback \<^verbatim>\<open>less rice\<close>.
\<close>

definition demo_edits :: "json list" where
  "demo_edits =
     [ JObj [ (''name'', JStr ''Rice''), (''calories'', JNum (Fin 200)),
              (''protein'', JNum (Fin 4)) ] ]"

definition demo_hebrew_system_prompt :: string where
  "demo_hebrew_system_prompt =
     hebrew_analysis_prompt @ hebrew_context_heading @ hebrew_feedback_line ''less rice'' @
     hebrew_edited_heading ''1'' @ ''  1. Rice: 200 cal, 4g protein\<newline>'' @
     hebrew_context_closing"

definition demo_user_text :: string where
  \<open>demo_user_text =
     ''Please analyze this meal image and incorporate the following user feedback: "less rice". The user has also provided 1 edited ingredients.''\<close>

text \<open>What the Hebrew call of the examples returns.\<close>

definition hebrew_blank_meal :: MealAnalysisResult where
  "hebrew_blank_meal =
     blank_meal
       \<lparr> name := JStr hebrew_unknown_meal,
         ingredients := [blank_ingredient \<lparr> Ingredient.name := JStr hebrew_unknown_ingredient \<rparr>] \<rparr>"

section \<open>Properties of normalization\<close>

subsection \<open>Auxiliary facts\<close>

lemma andThen_Inr [simp]: "andThen (Inr x) f = f x"
  by (simp add: andThen_def)

lemma andThen_Inl [simp]: "andThen (Inl e) f = Inl e"
  by (simp add: andThen_def)

lemma andThen_Inr_iff: "andThen m f = Inr y \<longleftrightarrow> (\<exists>x. m = Inr x \<and> f x = Inr y)"
  by (cases m) simp_all

lemma mapE_Inr_iff: "mapE f xs = Inr ys \<longleftrightarrow> map f xs = map Inr ys"
proof (induction xs arbitrary: ys)
  case Nil
  show ?case by auto
next
  case (Cons x xs)
  show ?case
  proof (cases ys)
    case Nil
    then show ?thesis by (auto simp: andThen_Inr_iff)
  next
    case (Cons y ys')
    then show ?thesis using Cons.IH [of ys'] by (auto simp: andThen_Inr_iff)
  qed
qed

lemma num_or_not_NaN: "d \<noteq> NaN \<Longrightarrow> num_or n d \<noteq> NaN"
  by (simp add: num_or_def truthy_num_def)

lemma num_or_NaN: "num_or NaN d = d"
  by (simp add: num_or_def truthy_num_def)

text \<open>The check of the totals decides the warnings only.\<close>

lemma normalizeAnalysisResult_Inr_iff:
  "normalizeAnalysisResult rt r h = Inr (n, w) \<longleftrightarrow>
     normalized_literal rt r h = Inr n \<and> w = totals_check rt n"
  by (auto simp: normalizeAnalysisResult_def andThen_Inr_iff)

lemma literal_required:
  assumes "normalized_literal rt r h = Inr n"
  shows "\<exists>x. Number rt (getProp r ''calories'') = Inr x \<and> calories n = num_or x (Fin 0)"
    and "\<exists>x. Number rt (getProp r ''protein'') = Inr x \<and> protein n = num_or x (Fin 0)"
    and "\<exists>x. Number rt (getProp r ''carbs'') = Inr x \<and> carbs n = num_or x (Fin 0)"
    and "\<exists>x. Number rt (getProp r ''fat'') = Inr x \<and> fat n = num_or x (Fin 0)"
    and "\<exists>x. Number rt (getProp r ''fiber'') = Inr x \<and> fiber n = num_or x (Fin 0)"
    and "\<exists>x. Number rt (getProp r ''sugar'') = Inr x \<and> sugar n = num_or x (Fin 0)"
    and "\<exists>x. Number rt (getProp r ''sodium'') = Inr x \<and> sodium n = num_or x (Fin 0)"
    and "\<exists>x. Number rt (getProp r ''confidence'') = Inr x \<and> confidence n = num_or x (Fin 75)"
  using assms unfolding normalized_literal_def
  by (auto simp: andThen_Inr_iff split: if_splits)

lemma defaulted:
  assumes "\<exists>x. Number rt v = Inr x \<and> out = num_or x d" and "d \<noteq> NaN"
  shows "(missing_or_non_numeric rt v \<longrightarrow> out = d) \<and> out \<noteq> NaN"
  using assms by (auto simp: missing_or_non_numeric_def num_or_NaN num_or_not_NaN)

text \<open>Normalization returns a record for every plain reply.\<close>

lemma andThen_Number_primitive:
  "primitive v \<Longrightarrow> andThen (Number rt v) f = f (projr (Number rt v))"
  by (cases "(rt, v)" rule: Number.cases) auto

lemma lor_primitive: "primitive a \<Longrightarrow> primitive b \<Longrightarrow> primitive (lor a b)"
  by (simp add: lor_def)

lemma normalizeIngredient_returns:
  assumes "plain_ingredient item"
  shows "\<exists>ing. normalizeIngredient rt h item = Inr ing"
  using assms
  by (simp add: plain_ingredient_def ingredient_number_keys_def normalizeIngredient_def
      andThen_Number_primitive lor_primitive)

lemma mapE_returns:
  assumes "\<forall>x \<in> set xs. \<exists>y. f x = Inr y"
  shows "\<exists>ys. mapE f xs = Inr ys"
  using assms
proof (induction xs)
  case Nil
  show ?case by simp
next
  case (Cons x xs)
  then obtain y ys where "f x = Inr y" and "mapE f xs = Inr ys"
    by auto
  then show ?case by simp
qed

lemma normalized_literal_returns:
  assumes "plain_reply result"
  shows "\<exists>n. normalized_literal rt result h = Inr n"
proof -
  have "\<exists>ings. (case getProp result ''ingredients'' of
                   Some (JArr xs) \<Rightarrow> mapE (normalizeIngredient rt h) xs
                 | _ \<Rightarrow> Inr []) = Inr ings"
  proof (cases "getProp result ''ingredients''")
    case None
    then show ?thesis by simp
  next
    case (Some v)
    show ?thesis
    proof (cases v)
      case (JArr items)
      with Some assms have "\<forall>item \<in> set items. plain_ingredient item"
        by (simp add: plain_reply_def list_all_iff)
      then have "\<exists>ys. mapE (normalizeIngredient rt h) items = Inr ys"
        by (intro mapE_returns) (simp add: normalizeIngredient_returns)
      with Some JArr show ?thesis by simp
    qed (use Some in simp_all)
  qed
  then obtain ings where i: "(case getProp result ''ingredients'' of
                   Some (JArr xs) \<Rightarrow> mapE (normalizeIngredient rt h) xs
                 | _ \<Rightarrow> Inr []) = Inr ings"
    by blast
  from assms show ?thesis
    by (simp add: plain_reply_def meal_number_keys_def normalized_literal_def
        andThen_Number_primitive i)
qed

lemma normalizeAnalysisResult_returns:
  assumes "plain_reply result"
  shows "\<exists>normalized warnings. normalizeAnalysisResult rt result h = Inr (normalized, warnings)"
  using normalized_literal_returns [OF assms, of rt h]
  by (auto simp: normalizeAnalysisResult_def)

text \<open>The calories of the totals are the sum of the calories, from the left.\<close>

lemma ingredientTotals_calories:
  "Totals.calories (ingredientTotals rt ings)
     = foldl (js_add rt) (Fin 0) (map Ingredient.calories ings)"
proof -
  have "Totals.calories
          (foldl (\<lambda>acc ingredient.
              \<lparr> Totals.calories = js_add rt (Totals.calories acc) (Ingredient.calories ingredient),
                Totals.protein = js_add rt (Totals.protein acc) (Ingredient.protein ingredient),
                Totals.carbs = js_add rt (Totals.carbs acc) (Ingredient.carbs ingredient),
                Totals.fat = js_add rt (Totals.fat acc) (Ingredient.fat ingredient) \<rparr>) a ings)
        = foldl (js_add rt) (Totals.calories a) (map Ingredient.calories ings)" for a
    by (induction ings arbitrary: a) simp_all
  then show ?thesis
    by (simp add: ingredientTotals_def)
qed

subsection \<open>The worked examples, evaluated\<close>

lemmas eval_simps =
  normalizeAnalysisResult_def normalized_literal_def normalizeIngredient_def totals_check_def
  calories_mismatch_def caloriesDiff_def ingredientTotals_def js_sub_def
  num_or_def num_or_undefined_def truthy_num_def or_else_def lor_def ToBoolean_def
  demo_runtime_def digit_of_def

lemma blank_reply_normalized:
  "normalizeAnalysisResult demo_runtime (JObj []) False = Inr (blank_meal, [])"
  by (simp add: eval_simps blank_meal_def)

lemma pinch_reply_normalized:
  "normalizeAnalysisResult demo_runtime (JObj [(''sodium'', JStr ''a pinch'')]) False
     = Inr (blank_meal, [])"
  by (simp add: eval_simps blank_meal_def)

lemma demo_reply_normalized:
  "normalizeAnalysisResult demo_runtime demo_reply False = Inr (demo_normalized, [demo_warning])"
  by (simp add: eval_simps demo_reply_def demo_items_def demo_normalized_def demo_warning_def
      blank_meal_def blank_ingredient_def)

lemma demo_reply_plain: "plain_reply demo_reply"
  by (simp add: plain_reply_def plain_ingredient_def demo_reply_def demo_items_def
      meal_number_keys_def ingredient_number_keys_def)

subsection \<open>Required numeric fields\<close>

text \<open>
  C1, as the service has it. Whenever \<^verbatim>\<open>normalizeAnalysisResult\<close> returns a record, each of
  \<^verbatim>\<open>calories\<close>, \<^verbatim>\<open>protein\<close>, \<^verbatim>\<open>carbs\<close>, \<^verbatim>\<open>fat\<close>, \<^verbatim>\<open>fiber\<close>, \<^verbatim>\<open>sugar\<close> and \<^verbatim>\<open>sodium\<close> is 0
  when the field of the reply is missing or non-numeric, \<^verbatim>\<open>confidence\<close> is 75 in that case
  (line 327), and none of the eight is NaN. None is undefined either: each is a Number by
  the type of the record, which is the type of \<^verbatim>\<open>Number(..) || literal\<close>.
\<close>

theorem required_fields_default:
  assumes "normalizeAnalysisResult rt result isHebrew = Inr (normalized, warnings)"
  shows "(missing_or_non_numeric rt (getProp result ''calories'') \<longrightarrow> calories normalized = Fin 0)
       \<and> calories normalized \<noteq> NaN
     \<and> (missing_or_non_numeric rt (getProp result ''protein'') \<longrightarrow> protein normalized = Fin 0)
       \<and> protein normalized \<noteq> NaN
     \<and> (missing_or_non_numeric rt (getProp result ''carbs'') \<longrightarrow> carbs normalized = Fin 0)
       \<and> carbs normalized \<noteq> NaN
     \<and> (missing_or_non_numeric rt (getProp result ''fat'') \<longrightarrow> fat normalized = Fin 0)
       \<and> fat normalized \<noteq> NaN
     \<and> (missing_or_non_numeric rt (getProp result ''fiber'') \<longrightarrow> fiber normalized = Fin 0)
       \<and> fiber normalized \<noteq> NaN
     \<and> (missing_or_non_numeric rt (getProp result ''sugar'') \<longrightarrow> sugar normalized = Fin 0)
       \<and> sugar normalized \<noteq> NaN
     \<and> (missing_or_non_numeric rt (getProp result ''sodium'') \<longrightarrow> sodium normalized = Fin 0)
       \<and> sodium normalized \<noteq> NaN
     \<and> (missing_or_non_numeric rt (getProp result ''confidence'') \<longrightarrow> confidence normalized = Fin 75)
       \<and> confidence normalized \<noteq> NaN"
proof -
  from assms have lit: "normalized_literal rt result isHebrew = Inr normalized"
    by (simp add: normalizeAnalysisResult_Inr_iff)
  note f = literal_required [OF lit]
  show ?thesis
    using defaulted [OF f(1)] defaulted [OF f(2)] defaulted [OF f(3)] defaulted [OF f(4)]
      defaulted [OF f(5)] defaulted [OF f(6)] defaulted [OF f(7)] defaulted [OF f(8)]
    by simp
qed

text \<open>
  The theorem at a reply that says \<^verbatim>\<open>"sodium": "a pinch"\<close> and nothing else: seven fields
  are missing and one is non-numeric.
\<close>

theorem required_fields_default_witness:
  "normalizeAnalysisResult demo_runtime (JObj [(''sodium'', JStr ''a pinch'')]) False
     = Inr (blank_meal, [])
   \<and> missing_or_non_numeric demo_runtime (getProp (JObj [(''sodium'', JStr ''a pinch'')]) ''calories'')
   \<and> missing_or_non_numeric demo_runtime (getProp (JObj [(''sodium'', JStr ''a pinch'')]) ''sodium'')
   \<and> missing_or_non_numeric demo_runtime (getProp (JObj [(''sodium'', JStr ''a pinch'')]) ''confidence'')
   \<and> calories blank_meal = Fin 0 \<and> protein blank_meal = Fin 0 \<and> carbs blank_meal = Fin 0
   \<and> fat blank_meal = Fin 0 \<and> fiber blank_meal = Fin 0 \<and> sugar blank_meal = Fin 0
   \<and> sodium blank_meal = Fin 0 \<and> confidence blank_meal = Fin 75"
proof -
  have m1: "missing_or_non_numeric demo_runtime None"
    by (simp add: missing_or_non_numeric_def)
  have m2: "missing_or_non_numeric demo_runtime (Some (JStr ''a pinch''))"
    by (simp add: missing_or_non_numeric_def demo_runtime_def digit_of_def)
  show ?thesis
    using required_fields_default [OF pinch_reply_normalized] m1 m2 pinch_reply_normalized
    by simp
qed

text \<open>
  C1 as it is written asks for a \<^verbatim>\<open>confidence\<close> of 0 when the reply has none. The empty
  reply has none, and its record has a \<^verbatim>\<open>confidence\<close> of 75.
\<close>

theorem confidence_default_counterexample:
  "getProp (JObj []) ''confidence'' = None
   \<and> map_sum id (confidence \<circ> fst) (normalizeAnalysisResult demo_runtime (JObj []) False)
       = Inr (Fin 75)"
  by (simp add: blank_reply_normalized blank_meal_def)

subsection \<open>Extended nutrient fields\<close>

lemma literal_extended:
  assumes "normalized_literal rt r h = Inr n"
  shows "\<exists>x. Number rt (getProp r ''saturated_fats_g'') = Inr x \<and> saturated_fats_g n = num_or_undefined x"
    and "\<exists>x. Number rt (getProp r ''polyunsaturated_fats_g'') = Inr x \<and> polyunsaturated_fats_g n = num_or_undefined x"
    and "\<exists>x. Number rt (getProp r ''monounsaturated_fats_g'') = Inr x \<and> monounsaturated_fats_g n = num_or_undefined x"
    and "\<exists>x. Number rt (getProp r ''omega_3_g'') = Inr x \<and> omega_3_g n = num_or_undefined x"
    and "\<exists>x. Number rt (getProp r ''omega_6_g'') = Inr x \<and> omega_6_g n = num_or_undefined x"
    and "\<exists>x. Number rt (getProp r ''soluble_fiber_g'') = Inr x \<and> soluble_fiber_g n = num_or_undefined x"
    and "\<exists>x. Number rt (getProp r ''insoluble_fiber_g'') = Inr x \<and> insoluble_fiber_g n = num_or_undefined x"
    and "\<exists>x. Number rt (getProp r ''cholesterol_mg'') = Inr x \<and> cholesterol_mg n = num_or_undefined x"
    and "\<exists>x. Number rt (getProp r ''alcohol_g'') = Inr x \<and> alcohol_g n = num_or_undefined x"
    and "\<exists>x. Number rt (getProp r ''caffeine_mg'') = Inr x \<and> caffeine_mg n = num_or_undefined x"
    and "\<exists>x. Number rt (getProp r ''liquids_ml'') = Inr x \<and> liquids_ml n = num_or_undefined x"
    and "\<exists>x. Number rt (getProp r ''serving_size_g'') = Inr x \<and> serving_size_g n = num_or_undefined x"
  using assms unfolding normalized_literal_def
  by (auto simp: andThen_Inr_iff split: if_splits)

lemma kept:
  assumes "\<exists>x. Number rt v = Inr x \<and> out = num_or_undefined x"
  shows "kept_unless_zero v out"
  using assms
  by (auto simp: kept_unless_zero_def num_or_undefined_def truthy_num_def
      split: option.splits json.splits)

lemma literal_indices:
  assumes "normalized_literal rt r h = Inr n"
  shows "glycemic_index n = lor (getProp r ''glycemic_index'') None"
    and "insulin_index n = lor (getProp r ''insulin_index'') None"
  using assms unfolding normalized_literal_def
  by (auto simp: andThen_Inr_iff split: if_splits)

lemma value_kept: "value_kept_unless_zero v (lor v None)"
  by (auto simp: value_kept_unless_zero_def lor_def ToBoolean_def truthy_num_def
      split: option.splits json.splits)

text \<open>
  What the service does with the extended nutrient fields, on every record it returns: a
  field that is absent from the reply is undefined, a number other than 0 is kept, and a 0
  is undefined as well.
\<close>

lemma extended_fields_of_reply:
  assumes "normalizeAnalysisResult rt result isHebrew = Inr (normalized, warnings)"
  shows "kept_unless_zero (getProp result ''saturated_fats_g'') (saturated_fats_g normalized)
     \<and> kept_unless_zero (getProp result ''polyunsaturated_fats_g'') (polyunsaturated_fats_g normalized)
     \<and> kept_unless_zero (getProp result ''monounsaturated_fats_g'') (monounsaturated_fats_g normalized)
     \<and> kept_unless_zero (getProp result ''omega_3_g'') (omega_3_g normalized)
     \<and> kept_unless_zero (getProp result ''omega_6_g'') (omega_6_g normalized)
     \<and> kept_unless_zero (getProp result ''soluble_fiber_g'') (soluble_fiber_g normalized)
     \<and> kept_unless_zero (getProp result ''insoluble_fiber_g'') (insoluble_fiber_g normalized)
     \<and> kept_unless_zero (getProp result ''cholesterol_mg'') (cholesterol_mg normalized)
     \<and> kept_unless_zero (getProp result ''alcohol_g'') (alcohol_g normalized)
     \<and> kept_unless_zero (getProp result ''caffeine_mg'') (caffeine_mg normalized)
     \<and> kept_unless_zero (getProp result ''liquids_ml'') (liquids_ml normalized)
     \<and> kept_unless_zero (getProp result ''serving_size_g'') (serving_size_g normalized)
     \<and> value_kept_unless_zero (getProp result ''glycemic_index'') (glycemic_index normalized)
     \<and> value_kept_unless_zero (getProp result ''insulin_index'') (insulin_index normalized)"
proof -
  from assms have lit: "normalized_literal rt result isHebrew = Inr normalized"
    by (simp add: normalizeAnalysisResult_Inr_iff)
  note f = literal_extended [OF lit]
  show ?thesis
    using kept [OF f(1)] kept [OF f(2)] kept [OF f(3)] kept [OF f(4)] kept [OF f(5)]
      kept [OF f(6)] kept [OF f(7)] kept [OF f(8)] kept [OF f(9)] kept [OF f(10)]
      kept [OF f(11)] kept [OF f(12)]
    by (simp add: literal_indices [OF lit] value_kept)
qed

text \<open>At \<open>demo_reply\<close>: 2.5 is kept, 0 and an absent field are both undefined.\<close>

lemma extended_fields_of_demo_reply:
  "getProp demo_reply ''saturated_fats_g'' = Some (JNum (Fin (5 / 2)))
   \<and> saturated_fats_g demo_normalized = Some (Fin (5 / 2))
   \<and> getProp demo_reply ''omega_3_g'' = Some (JNum (Fin 0))
   \<and> omega_3_g demo_normalized = None
   \<and> getProp demo_reply ''liquids_ml'' = None
   \<and> liquids_ml demo_normalized = None"
  using extended_fields_of_reply [OF demo_reply_normalized]
  by (simp add: kept_unless_zero_def demo_reply_def)

text \<open>
  C2. The claim has each extended nutrient field undefined when the reply does not have
  it, and equal to the number the reply gives when it has one, so that a provided 0 is told
  from an absent field. The service keeps every number but 0: the fields are filled with
  \<^verbatim>\<open>.. || undefined\<close> (lines 368 to 384), and 0 is falsy. At the reply
  \<^verbatim>\<open>{"saturated_fats_g": 0, "glycemic_index": 0}\<close> both fields of the record are
  undefined, as they are at the empty reply.
\<close>

theorem provided_zero_becomes_undefined:
  "getProp (JObj [(''saturated_fats_g'', JNum (Fin 0)), (''glycemic_index'', JNum (Fin 0))])
       ''saturated_fats_g'' = Some (JNum (Fin 0))
   \<and> map_sum id (saturated_fats_g \<circ> fst)
        (normalizeAnalysisResult demo_runtime
           (JObj [(''saturated_fats_g'', JNum (Fin 0)), (''glycemic_index'', JNum (Fin 0))]) False)
       = Inr None
   \<and> map_sum id (glycemic_index \<circ> fst)
        (normalizeAnalysisResult demo_runtime
           (JObj [(''saturated_fats_g'', JNum (Fin 0)), (''glycemic_index'', JNum (Fin 0))]) False)
       = Inr None
   \<and> map_sum id (saturated_fats_g \<circ> fst) (normalizeAnalysisResult demo_runtime (JObj []) False)
       = Inr None
   \<and> map_sum id (glycemic_index \<circ> fst) (normalizeAnalysisResult demo_runtime (JObj []) False)
       = Inr None"
  by (simp add: eval_simps)

subsection \<open>The list of ingredients\<close>

lemma literal_ingredients:
  assumes "normalized_literal rt r h = Inr n"
  shows "(case getProp r ''ingredients'' of
            Some (JArr items) \<Rightarrow> mapE (normalizeIngredient rt h) items
          | _ \<Rightarrow> Inr []) = Inr (ingredients n)"
  using assms unfolding normalized_literal_def
  by (auto simp: andThen_Inr_iff split: if_splits)

lemma nth_normalized_ingredient:
  assumes "normalized_literal rt r h = Inr n"
    and "getProp r ''ingredients'' = Some (JArr items)" and "i < length items"
  shows "normalizeIngredient rt h (items ! i) = Inr (ingredients n ! i)"
proof -
  from literal_ingredients [OF assms(1)] assms(2)
  have m: "map (normalizeIngredient rt h) items = map Inr (ingredients n)"
    by (simp add: mapE_Inr_iff)
  then have "length (ingredients n) = length items"
    by (metis length_map)
  with m assms(3) show ?thesis
    by (metis nth_map)
qed

lemma demo_ingredients: "getProp demo_reply ''ingredients'' = Some (JArr demo_items)"
  by (simp add: demo_reply_def)

text \<open>
  C10. The \<^verbatim>\<open>ingredients\<close> of a record that \<^verbatim>\<open>normalizeAnalysisResult\<close> returns is a list,
  by the type of the record. When the reply has an array under \<^verbatim>\<open>ingredients\<close>, the list is
  as long as the array and its element at each index is the normalized element of the array
  at that index; when the reply has no \<^verbatim>\<open>ingredients\<close> or something that is no array, the
  list is empty.
\<close>

theorem ingredients_is_list_of_normalized_items:
  assumes "normalizeAnalysisResult rt result isHebrew = Inr (normalized, warnings)"
  shows "(case getProp result ''ingredients'' of
            Some (JArr items) \<Rightarrow>
              length (ingredients normalized) = length items
              \<and> (\<forall>i < length items.
                    normalizeIngredient rt isHebrew (items ! i) = Inr (ingredients normalized ! i))
          | _ \<Rightarrow> ingredients normalized = [])"
proof -
  from assms have lit: "normalized_literal rt result isHebrew = Inr normalized"
    by (simp add: normalizeAnalysisResult_Inr_iff)
  show ?thesis
  proof (cases "getProp result ''ingredients''")
    case None
    with literal_ingredients [OF lit] show ?thesis by simp
  next
    case (Some v)
    show ?thesis
    proof (cases v)
      case (JArr items)
      with Some literal_ingredients [OF lit]
      have m: "map (normalizeIngredient rt isHebrew) items = map Inr (ingredients normalized)"
        by (simp add: mapE_Inr_iff)
      from m have len: "length (ingredients normalized) = length items"
        by (metis length_map)
      have "normalizeIngredient rt isHebrew (items ! i) = Inr (ingredients normalized ! i)"
        if "i < length items" for i
        using that m len by (metis nth_map)
      with len Some JArr show ?thesis by simp
    qed (use Some literal_ingredients [OF lit] in auto)
  qed
qed

text \<open>
  The theorem at \<open>demo_reply\<close> with its two ingredients, and at a reply whose
  \<^verbatim>\<open>ingredients\<close> is a string.
\<close>

theorem ingredients_is_list_of_normalized_items_witness:
  "normalizeAnalysisResult demo_runtime demo_reply False = Inr (demo_normalized, [demo_warning])
   \<and> getProp demo_reply ''ingredients'' = Some (JArr demo_items)
   \<and> length (ingredients demo_normalized) = length demo_items
   \<and> normalizeIngredient demo_runtime False (demo_items ! 0) = Inr (ingredients demo_normalized ! 0)
   \<and> normalizeIngredient demo_runtime False (demo_items ! 1) = Inr (ingredients demo_normalized ! 1)
   \<and> normalizeAnalysisResult demo_runtime (JObj [(''ingredients'', JStr ''bread'')]) False
       = Inr (blank_meal, [])
   \<and> ingredients blank_meal = []"
proof -
  have l: "length demo_items = 2"
    by (simp add: demo_items_def)
  from ingredients_is_list_of_normalized_items [OF demo_reply_normalized]
  have a: "length (ingredients demo_normalized) = length demo_items
     \<and> (\<forall>i < length demo_items.
           normalizeIngredient demo_runtime False (demo_items ! i) = Inr (ingredients demo_normalized ! i))"
    by (simp add: demo_ingredients)
  have b: "normalizeAnalysisResult demo_runtime (JObj [(''ingredients'', JStr ''bread'')]) False
       = Inr (blank_meal, [])"
    by (simp add: eval_simps blank_meal_def)
  from ingredients_is_list_of_normalized_items [OF b]
  have c: "ingredients blank_meal = []"
    by simp
  from a l b c demo_reply_normalized demo_ingredients show ?thesis
    by simp
qed

subsection \<open>Aliased names of a nutrient\<close>

lemma ingredient_aliases:
  assumes "normalizeIngredient rt h item = Inr ing"
  shows "\<exists>y. Number rt (lor (getProp item ''protein'') (getProp item ''protein_g'')) = Inr y
              \<and> Ingredient.protein ing = num_or y (Fin 0)"
    and "\<exists>y. Number rt (lor (getProp item ''carbs'') (getProp item ''carbs_g'')) = Inr y
              \<and> Ingredient.carbs ing = num_or y (Fin 0)"
    and "\<exists>y. Number rt (lor (getProp item ''fat'') (getProp item ''fats_g'')) = Inr y
              \<and> Ingredient.fat ing = num_or y (Fin 0)"
    and "\<exists>y. Number rt (lor (getProp item ''fiber'') (getProp item ''fiber_g'')) = Inr y
              \<and> Ingredient.fiber ing = num_or y (Fin 0)"
    and "\<exists>y. Number rt (lor (getProp item ''sugar'') (getProp item ''sugar_g'')) = Inr y
              \<and> Ingredient.sugar ing = num_or y (Fin 0)"
    and "\<exists>y. Number rt (lor (getProp item ''sodium_mg'') (getProp item ''sodium'')) = Inr y
              \<and> Ingredient.sodium_mg ing = num_or y (Fin 0)"
  using assms unfolding normalizeIngredient_def
  by (auto simp: andThen_Inr_iff split: if_splits)

lemma alias_value:
  assumes "\<exists>y. Number rt (lor (getProp item a) (getProp item b)) = Inr y \<and> out = num_or y (Fin 0)"
  shows "\<forall>x. x \<noteq> NaN \<and> only_under item a b x \<longrightarrow> out = x"
  using assms
  by (auto simp: only_under_def lor_def ToBoolean_def num_or_def truthy_num_def split: if_splits)

text \<open>
  C6. When \<^verbatim>\<open>normalizeAnalysisResult\<close> returns a record, and an ingredient of the reply
  gives a number under exactly one of the two names of a nutrient (\<^verbatim>\<open>protein\<close> or
  \<^verbatim>\<open>protein_g\<close>, \<^verbatim>\<open>carbs\<close> or \<^verbatim>\<open>carbs_g\<close>, \<^verbatim>\<open>fat\<close> or \<^verbatim>\<open>fats_g\<close>, \<^verbatim>\<open>fiber\<close> or
  \<^verbatim>\<open>fiber_g\<close>, \<^verbatim>\<open>sugar\<close> or \<^verbatim>\<open>sugar_g\<close>, \<^verbatim>\<open>sodium_mg\<close> or \<^verbatim>\<open>sodium\<close>), the field of
  the normalized ingredient at the same index is that number. (A parsed number is never
  NaN.)
\<close>

theorem aliased_nutrient_is_kept:
  assumes "normalizeAnalysisResult rt result isHebrew = Inr (normalized, warnings)"
    and "getProp result ''ingredients'' = Some (JArr items)"
    and "i < length items"
  shows "(\<forall>x. x \<noteq> NaN \<and> only_under (items ! i) ''protein'' ''protein_g'' x
              \<longrightarrow> Ingredient.protein (ingredients normalized ! i) = x)
     \<and> (\<forall>x. x \<noteq> NaN \<and> only_under (items ! i) ''carbs'' ''carbs_g'' x
              \<longrightarrow> Ingredient.carbs (ingredients normalized ! i) = x)
     \<and> (\<forall>x. x \<noteq> NaN \<and> only_under (items ! i) ''fat'' ''fats_g'' x
              \<longrightarrow> Ingredient.fat (ingredients normalized ! i) = x)
     \<and> (\<forall>x. x \<noteq> NaN \<and> only_under (items ! i) ''fiber'' ''fiber_g'' x
              \<longrightarrow> Ingredient.fiber (ingredients normalized ! i) = x)
     \<and> (\<forall>x. x \<noteq> NaN \<and> only_under (items ! i) ''sugar'' ''sugar_g'' x
              \<longrightarrow> Ingredient.sugar (ingredients normalized ! i) = x)
     \<and> (\<forall>x. x \<noteq> NaN \<and> only_under (items ! i) ''sodium_mg'' ''sodium'' x
              \<longrightarrow> Ingredient.sodium_mg (ingredients normalized ! i) = x)"
proof -
  from assms(1) have lit: "normalized_literal rt result isHebrew = Inr normalized"
    by (simp add: normalizeAnalysisResult_Inr_iff)
  note a = ingredient_aliases [OF nth_normalized_ingredient [OF lit assms(2,3)]]
  show ?thesis
    using alias_value [OF a(1)] alias_value [OF a(2)] alias_value [OF a(3)]
      alias_value [OF a(4)] alias_value [OF a(5)] alias_value [OF a(6)]
    by simp
qed

text \<open>
  The theorem at the first ingredient of \<open>demo_reply\<close>, which names each of the six
  nutrients by one alias only.
\<close>

theorem aliased_nutrient_is_kept_witness:
  "normalizeAnalysisResult demo_runtime demo_reply False = Inr (demo_normalized, [demo_warning])
   \<and> getProp demo_reply ''ingredients'' = Some (JArr demo_items)
   \<and> 0 < length demo_items
   \<and> only_under (demo_items ! 0) ''protein'' ''protein_g'' (Fin 4)
   \<and> Ingredient.protein (ingredients demo_normalized ! 0) = Fin 4
   \<and> only_under (demo_items ! 0) ''carbs'' ''carbs_g'' (Fin 20)
   \<and> Ingredient.carbs (ingredients demo_normalized ! 0) = Fin 20
   \<and> only_under (demo_items ! 0) ''fat'' ''fats_g'' (Fin 1)
   \<and> Ingredient.fat (ingredients demo_normalized ! 0) = Fin 1
   \<and> only_under (demo_items ! 0) ''fiber'' ''fiber_g'' (Fin 3)
   \<and> Ingredient.fiber (ingredients demo_normalized ! 0) = Fin 3
   \<and> only_under (demo_items ! 0) ''sugar'' ''sugar_g'' (Fin 2)
   \<and> Ingredient.sugar (ingredients demo_normalized ! 0) = Fin 2
   \<and> only_under (demo_items ! 0) ''sodium_mg'' ''sodium'' (Fin 120)
   \<and> Ingredient.sodium_mg (ingredients demo_normalized ! 0) = Fin 120"
proof -
  have len: "0 < length demo_items"
    by (simp add: demo_items_def)
  have u: "only_under (demo_items ! 0) ''protein'' ''protein_g'' (Fin 4)"
    "only_under (demo_items ! 0) ''carbs'' ''carbs_g'' (Fin 20)"
    "only_under (demo_items ! 0) ''fat'' ''fats_g'' (Fin 1)"
    "only_under (demo_items ! 0) ''fiber'' ''fiber_g'' (Fin 3)"
    "only_under (demo_items ! 0) ''sugar'' ''sugar_g'' (Fin 2)"
    "only_under (demo_items ! 0) ''sodium_mg'' ''sodium'' (Fin 120)"
    by (simp_all add: demo_items_def only_under_def)
  from aliased_nutrient_is_kept [OF demo_reply_normalized demo_ingredients len] u
  have "Ingredient.protein (ingredients demo_normalized ! 0) = Fin 4"
    "Ingredient.carbs (ingredients demo_normalized ! 0) = Fin 20"
    "Ingredient.fat (ingredients demo_normalized ! 0) = Fin 1"
    "Ingredient.fiber (ingredients demo_normalized ! 0) = Fin 3"
    "Ingredient.sugar (ingredients demo_normalized ! 0) = Fin 2"
    "Ingredient.sodium_mg (ingredients demo_normalized ! 0) = Fin 120"
    by blast+
  with demo_reply_normalized demo_ingredients len u show ?thesis
    by simp
qed

subsection \<open>The check of the totals\<close>

text \<open>
  C5, as the service has it. When the record built from the reply has at least one
  ingredient, and the calories summed over its ingredients differ from its \<^verbatim>\<open>calories\<close> by
  more than the latter times \<^verbatim>\<open>0.2\<close>, \<^verbatim>\<open>normalizeAnalysisResult\<close> prints one warning, does
  not throw, and returns the record as it was built, no field altered. The check is under the
  guard \<^verbatim>\<open>normalized.ingredients.length > 0\<close> of line 391.
\<close>

theorem mismatch_only_warns:
  assumes "normalized_literal rt result isHebrew = Inr normalized"
    and "ingredients normalized \<noteq> []"
    and "calories_mismatch rt normalized"
  shows "normalizeAnalysisResult rt result isHebrew =
           Inr (normalized,
                [\<lparr> mealCalories = calories normalized,
                    ingredientCalories =
                      Totals.calories (ingredientTotals rt (ingredients normalized)),
                    difference = caloriesDiff rt normalized \<rparr>])"
  using assms by (simp add: normalizeAnalysisResult_def totals_check_def)

lemma demo_literal: "normalized_literal demo_runtime demo_reply False = Inr demo_normalized"
  using demo_reply_normalized by (simp add: normalizeAnalysisResult_Inr_iff)

text \<open>
  The theorem at \<open>demo_reply\<close>: 300 calories for the meal, 150 over its ingredients, which
  is 150 away and more than 60.
\<close>

theorem mismatch_only_warns_witness:
  "normalized_literal demo_runtime demo_reply False = Inr demo_normalized
   \<and> ingredients demo_normalized \<noteq> []
   \<and> calories_mismatch demo_runtime demo_normalized
   \<and> normalizeAnalysisResult demo_runtime demo_reply False = Inr (demo_normalized, [demo_warning])"
proof -
  have h2: "ingredients demo_normalized \<noteq> []"
    by (simp add: demo_normalized_def)
  have h3: "calories_mismatch demo_runtime demo_normalized"
    by (simp add: eval_simps demo_normalized_def blank_meal_def blank_ingredient_def)
  have w: "\<lparr> mealCalories = calories demo_normalized,
             ingredientCalories =
               Totals.calories (ingredientTotals demo_runtime (ingredients demo_normalized)),
             difference = caloriesDiff demo_runtime demo_normalized \<rparr> = demo_warning"
    by (simp add: eval_simps demo_normalized_def demo_warning_def blank_meal_def
        blank_ingredient_def)
  from mismatch_only_warns [OF demo_literal h2 h3] w demo_literal h2 h3 show ?thesis
    by simp
qed

text \<open>
  C5 as it is written has a warning for every reply whose ingredient calories sum to a
  value that far from the total. The reply \<^verbatim>\<open>{"calories": 500}\<close> has no ingredient: the sum
  is 0, which is 500 away from 500 and more than 100, and nothing is printed.
\<close>

theorem no_ingredients_no_warning_counterexample:
  "map_sum id (calories \<circ> fst)
       (normalizeAnalysisResult demo_runtime (JObj [(''calories'', JNum (Fin 500))]) False)
     = Inr (Fin 500)
   \<and> map_sum id (ingredients \<circ> fst)
       (normalizeAnalysisResult demo_runtime (JObj [(''calories'', JNum (Fin 500))]) False)
     = Inr []
   \<and> map_sum id (calories_mismatch demo_runtime \<circ> fst)
       (normalizeAnalysisResult demo_runtime (JObj [(''calories'', JNum (Fin 500))]) False)
     = Inr True
   \<and> map_sum id snd
       (normalizeAnalysisResult demo_runtime (JObj [(''calories'', JNum (Fin 500))]) False)
     = Inr []"
  by (simp add: eval_simps)

section \<open>Properties of the operations\<close>

subsection \<open>Auxiliary facts\<close>

text \<open>\<open>js_includes\<close> is the search for a substring.\<close>

lemma js_includes_iff: "js_includes s n \<longleftrightarrow> (\<exists>p q. s = p @ n @ q)"
proof (induction s)
  case Nil
  show ?case by auto
next
  case (Cons c cs)
  show ?case
  proof
    assume "js_includes (c # cs) n"
    then consider "take (length n) (c # cs) = n" | "js_includes cs n" by auto
    then show "\<exists>p q. c # cs = p @ n @ q"
    proof cases
      case 1
      then have "c # cs = [] @ n @ drop (length n) (c # cs)"
        by (metis append_Nil append_take_drop_id)
      then show ?thesis by blast
    next
      case 2
      with Cons.IH obtain p q where "cs = p @ n @ q" by blast
      then have "c # cs = (c # p) @ n @ q" by simp
      then show ?thesis by blast
    qed
  next
    assume "\<exists>p q. c # cs = p @ n @ q"
    then obtain p q where pq: "c # cs = p @ n @ q" by blast
    show "js_includes (c # cs) n"
    proof (cases p)
      case Nil
      with pq have "take (length n) (c # cs) = n" by simp
      then show ?thesis by simp
    next
      case (Cons a p')
      with pq have "cs = p' @ n @ q" by simp
      with Cons.IH have "js_includes cs n" by blast
      then show ?thesis by simp
    qed
  qed
qed

text \<open>The operations when the credential is configured.\<close>

lemma configured_iff:
  "\<not> not_configured env \<longleftrightarrow> (\<exists>create. openai env = Some create) \<and> given_text (OPENAI_API_KEY env)"
  by (auto simp: not_configured_def)

lemma analyzeMealImage_configured:
  assumes "openai env = Some create" and "given_text (OPENAI_API_KEY env)"
  shows "analyzeMealImage rt env img language updateText editedIngredients =
     (case analysis_system_prompt rt (language_or_default language = ''hebrew'') updateText
             editedIngredients of
        Inl e \<Rightarrow> (Inl (analyzeMealImage_catch e), [])
      | Inr p \<Rightarrow>
          (case andThen
                  (create (analysis_request rt p (analyze_user_text rt updateText editedIngredients)
                     img))
                  (analysis_of_response rt env (language_or_default language = ''hebrew'')) of
             Inl e \<Rightarrow> Inl (analyzeMealImage_catch e)
           | Inr normalized \<Rightarrow> Inr normalized,
           [analysis_request rt p (analyze_user_text rt updateText editedIngredients)
              img]))"
  using assms
  by (simp add: analyzeMealImage_def analyzeMealImage_try_def not_configured_def Let_def
      split: sum.splits)

lemma updateMealAnalysis_configured:
  assumes "openai env = Some create" and "given_text (OPENAI_API_KEY env)"
  shows "updateMealAnalysis rt env originalAnalysis feedback language =
     (case andThen
             (create (update_request rt
                (buildUpdatePrompt rt originalAnalysis feedback
                   (language_or_default language = ''hebrew'')) feedback))
             (update_of_response rt env (language_or_default language = ''hebrew'')) of
        Inl e \<Rightarrow> Inl (Error ''Failed to update meal analysis'')
      | Inr normalized \<Rightarrow> Inr normalized,
      [update_request rt
         (buildUpdatePrompt rt originalAnalysis feedback
            (language_or_default language = ''hebrew'')) feedback])"
  using assms
  by (simp add: updateMealAnalysis_def updateMealAnalysis_try_def updateMealAnalysis_catch_def
      not_configured_def Let_def split: sum.splits)

lemma generateText_configured:
  assumes "openai env = Some create" and "given_text (OPENAI_API_KEY env)"
  shows "generateText rt env prompt maxTokens =
     (case create (generate_request rt prompt maxTokens) of
        Inl e \<Rightarrow> Inl e
      | Inr response \<Rightarrow>
          Inr (if given_text (first_content response) then the (first_content response) else []),
      [generate_request rt prompt maxTokens])"
  using assms
  by (simp add: generateText_def generateText_try_def generateText_catch_def
      not_configured_def Let_def split: sum.splits)

lemma catch_in_user_facing: "analyzeMealImage_catch e \<in> set user_facing_errors"
  by (simp add: analyzeMealImage_catch_def user_facing_errors_def split: thrown.splits)

lemma demo_env_simps [simp]:
  "openai (demo_env create) = Some create"
  "given_text (OPENAI_API_KEY (demo_env create))"
  "extractCleanJSON (demo_env create) = Inr"
  by (simp_all add: demo_env_def given_text_def)

lemma plain_system_prompt [simp]:
  "analysis_system_prompt rt isHebrew None None = Inr (buildAnalysisPrompt isHebrew)"
  by (simp add: analysis_system_prompt_def given_text_def given_items_def)

lemma plain_user_text:
  "analyze_user_text rt None None
     = ''Please analyze this meal image and provide detailed nutritional information.''"
  by (simp add: analyze_user_text_def given_text_def)

lemma quota_caught:
  "analyzeMealImage_catch (Error ''You exceeded your current quota'')
     = Error ''AI analysis quota exceeded. Please try again later.''"
  by (simp add: analyzeMealImage_catch_def)

lemma analysis_of_response_Inr:
  assumes "analysis_of_response rt env h response = Inr n"
  shows "\<exists>content cleanedJSON parsedResult warnings.
           first_content response = Some content
         \<and> extractCleanJSON env content = Inr cleanedJSON
         \<and> JSON_parse rt cleanedJSON = Inr parsedResult
         \<and> normalizeAnalysisResult rt parsedResult h = Inr (n, warnings)"
  using assms unfolding analysis_of_response_def
  by (cases "first_content response")
    (auto simp: andThen_Inr_iff given_text_def split: if_splits)

lemma literal_name:
  assumes "normalized_literal rt r h = Inr n"
  shows "name n = or_else (getProp r ''name'')
                    (JStr (if h then hebrew_unknown_meal else ''Unknown meal''))"
  using assms unfolding normalized_literal_def
  by (auto simp: andThen_Inr_iff split: if_splits)

lemma ingredient_name:
  assumes "normalizeIngredient rt h item = Inr ing"
  shows "Ingredient.name ing = or_else (getProp item ''name'')
           (JStr (if h then hebrew_unknown_ingredient else ''Unknown ingredient''))"
  using assms unfolding normalizeIngredient_def
  by (auto simp: andThen_Inr_iff split: if_splits)

lemma system_prompt_of_analysis_request [simp]:
  "system_prompt_of (analysis_request rt p t img) = Some (Plain p)"
  by (simp add: system_prompt_of_def analysis_request_def)

lemma no_content_caught:
  "analyzeMealImage_catch (Error ''No response content from OpenAI'')
     = Error ''AI analysis failed. Please try again.''"
  by (simp add: analyzeMealImage_catch_def)

lemma demo_ok_response:
  \<open>first_content (Completion [Choice (Some (ReplyMessage (Some ''{"ingredients":[{}]}'')))])
     = Some ''{"ingredients":[{}]}''\<close>
  by simp

lemma demo_ok_analysis:
  \<open>analysis_of_response demo_runtime (demo_env create) h
      (Completion [Choice (Some (ReplyMessage (Some ''{"ingredients":[{}]}'')))])
    = Inr (blank_meal
            \<lparr> name := JStr (if h then hebrew_unknown_meal else ''Unknown meal''),
              ingredients :=
                [blank_ingredient
                   \<lparr> Ingredient.name :=
                       JStr (if h then hebrew_unknown_ingredient else ''Unknown ingredient'') \<rparr>] \<rparr>)\<close>
  by (simp add: analysis_of_response_def given_text_def eval_simps blank_meal_def
      blank_ingredient_def)

lemma demo_other_language_call:
  "analyzeMealImage demo_runtime (demo_env demo_create_ok) ''QUJD'' (Some ''Hebrew'') None None
     = (Inr (blank_meal \<lparr> ingredients := [blank_ingredient] \<rparr>),
        [analysis_request demo_runtime english_analysis_prompt
           ''Please analyze this meal image and provide detailed nutritional information.''
           ''QUJD''])"
  by (simp add: analyzeMealImage_configured [where create = demo_create_ok]
      language_or_default_def buildAnalysisPrompt_def plain_user_text demo_create_ok_def
      demo_ok_analysis blank_meal_def blank_ingredient_def)

subsection \<open>No credential\<close>

text \<open>
  C3. When no credential is configured, that is when the client handle is \<^verbatim>\<open>null\<close> or
  \<^verbatim>\<open>process.env.OPENAI_API_KEY\<close> is unset or empty, each of \<^verbatim>\<open>analyzeMealImage\<close>,
  \<^verbatim>\<open>updateMealAnalysis\<close> and \<^verbatim>\<open>generateText\<close> fails with the error
  \<^verbatim>\<open>OpenAI API key not configured\<close> and sends no request, whatever its other arguments.
\<close>

theorem not_configured_fails_without_call:
  assumes "not_configured env"
  shows "analyzeMealImage rt env img language updateText editedIngredients
           = (Inl (Error ''OpenAI API key not configured''), [])
     \<and> updateMealAnalysis rt env originalAnalysis feedback lang
           = (Inl (Error ''OpenAI API key not configured''), [])
     \<and> generateText rt env prompt maxTokens
           = (Inl (Error ''OpenAI API key not configured''), [])"
  using assms by (simp add: analyzeMealImage_def updateMealAnalysis_def generateText_def)

lemma no_key_not_configured: "not_configured demo_env_no_key"
  by (simp add: not_configured_def demo_env_no_key_def given_text_def)

text \<open>
  The theorem at an environment whose client exists and whose credential is the empty
  string.
\<close>

theorem not_configured_fails_without_call_witness:
  "not_configured demo_env_no_key
   \<and> analyzeMealImage demo_runtime demo_env_no_key ''QUJD'' (Some ''hebrew'') (Some ''less rice'')
        (Some demo_items)
       = (Inl (Error ''OpenAI API key not configured''), [])
   \<and> updateMealAnalysis demo_runtime demo_env_no_key demo_reply ''less rice'' None
       = (Inl (Error ''OpenAI API key not configured''), [])
   \<and> generateText demo_runtime demo_env_no_key ''Say hello'' (Some (Fin 50))
       = (Inl (Error ''OpenAI API key not configured''), [])"
  using not_configured_fails_without_call [OF no_key_not_configured] no_key_not_configured
  by simp

subsection \<open>Errors of the remote call\<close>

text \<open>
  C4, as the service has it. With a credential configured, an error that the remote call
  throws is caught and thrown again once, with no second request, and each operation has its
  own way. \<^verbatim>\<open>analyzeMealImage\<close> throws one of four messages, chosen by the first of the
  substrings \<^verbatim>\<open>quota\<close>, \<^verbatim>\<open>rate limit\<close> and \<^verbatim>\<open>invalid_request_error\<close> that the message of
  the error contains, and the general one when it contains none or when what was thrown is
  no \<^verbatim>\<open>Error\<close>. \<^verbatim>\<open>updateMealAnalysis\<close> throws \<^verbatim>\<open>Failed to update meal analysis\<close> whatever
  the error. \<^verbatim>\<open>generateText\<close> throws the error it caught.
\<close>

theorem provider_errors_reraised:
  assumes "openai env = Some create" and "given_text (OPENAI_API_KEY env)"
  shows "(\<forall>p e. analysis_system_prompt rt (language_or_default language = ''hebrew'') updateText
                   editedIngredients = Inr p
               \<and> create (analysis_request rt p
                     (analyze_user_text rt updateText editedIngredients) img) = Inl e
            \<longrightarrow> analyzeMealImage rt env img language updateText editedIngredients
                  = (Inl (analyzeMealImage_catch e),
                     [analysis_request rt p
                        (analyze_user_text rt updateText editedIngredients) img])
                \<and> analyzeMealImage_catch e \<in> set user_facing_errors)
     \<and> (\<forall>message. analyzeMealImage_catch (Error message) =
            (if js_includes message ''quota'' then
               Error ''AI analysis quota exceeded. Please try again later.''
             else if js_includes message ''rate limit'' then
               Error ''Too many requests. Please wait a moment and try again.''
             else if js_includes message ''invalid_request_error'' then
               Error ''Invalid image format. Please try a different image.''
             else Error ''AI analysis failed. Please try again.''))
     \<and> analyzeMealImage_catch NonError = Error ''AI analysis failed. Please try again.''
     \<and> (\<forall>e. create (update_request rt
                  (buildUpdatePrompt rt originalAnalysis feedback
                     (language_or_default lang = ''hebrew'')) feedback) = Inl e
            \<longrightarrow> updateMealAnalysis rt env originalAnalysis feedback lang
                  = (Inl (Error ''Failed to update meal analysis''),
                     [update_request rt
                        (buildUpdatePrompt rt originalAnalysis feedback
                           (language_or_default lang = ''hebrew'')) feedback]))
     \<and> (\<forall>e. create (generate_request rt prompt maxTokens) = Inl e
            \<longrightarrow> generateText rt env prompt maxTokens
                  = (Inl e, [generate_request rt prompt maxTokens]))"
proof -
  have a: "analyzeMealImage rt env img language updateText editedIngredients
             = (Inl (analyzeMealImage_catch e),
                [analysis_request rt p
                   (analyze_user_text rt updateText editedIngredients) img])"
    if "analysis_system_prompt rt (language_or_default language = ''hebrew'') updateText
          editedIngredients = Inr p"
      and "create (analysis_request rt p
             (analyze_user_text rt updateText editedIngredients) img) = Inl e"
    for p e
    using that by (simp add: analyzeMealImage_configured [OF assms])
  have c: "analyzeMealImage_catch (Error message) =
            (if js_includes message ''quota'' then
               Error ''AI analysis quota exceeded. Please try again later.''
             else if js_includes message ''rate limit'' then
               Error ''Too many requests. Please wait a moment and try again.''
             else if js_includes message ''invalid_request_error'' then
               Error ''Invalid image format. Please try a different image.''
             else Error ''AI analysis failed. Please try again.'')" for message
    by (simp add: analyzeMealImage_catch_def)
  have n: "analyzeMealImage_catch NonError = Error ''AI analysis failed. Please try again.''"
    by (simp add: analyzeMealImage_catch_def)
  have u: "updateMealAnalysis rt env originalAnalysis feedback lang
                  = (Inl (Error ''Failed to update meal analysis''),
                     [update_request rt
                        (buildUpdatePrompt rt originalAnalysis feedback
                           (language_or_default lang = ''hebrew'')) feedback])"
    if "create (update_request rt
                  (buildUpdatePrompt rt originalAnalysis feedback
                     (language_or_default lang = ''hebrew'')) feedback) = Inl e" for e
    using that by (simp add: updateMealAnalysis_configured [OF assms])
  have g: "generateText rt env prompt maxTokens = (Inl e, [generate_request rt prompt maxTokens])"
    if "create (generate_request rt prompt maxTokens) = Inl e" for e
    using that by (simp add: generateText_configured [OF assms])
  from a c n u g catch_in_user_facing show ?thesis
    by blast
qed

text \<open>The theorem at a remote call that fails with \<^verbatim>\<open>You exceeded your current quota\<close>.\<close>

theorem provider_errors_reraised_witness:
  "openai (demo_env demo_create_quota) = Some demo_create_quota
   \<and> given_text (OPENAI_API_KEY (demo_env demo_create_quota))
   \<and> analyzeMealImage demo_runtime (demo_env demo_create_quota) ''QUJD'' None None None
       = (Inl (Error ''AI analysis quota exceeded. Please try again later.''),
          [analysis_request demo_runtime english_analysis_prompt
             ''Please analyze this meal image and provide detailed nutritional information.''
             ''QUJD''])
   \<and> updateMealAnalysis demo_runtime (demo_env demo_create_quota) (JObj []) ''less rice'' None
       = (Inl (Error ''Failed to update meal analysis''),
          [update_request demo_runtime
             (buildUpdatePrompt demo_runtime (JObj []) ''less rice'' False) ''less rice''])
   \<and> generateText demo_runtime (demo_env demo_create_quota) ''Say hello'' None
       = (Inl (Error ''You exceeded your current quota''),
          [generate_request demo_runtime ''Say hello'' None])"
proof -
  have h1: "openai (demo_env demo_create_quota) = Some demo_create_quota"
    and h2: "given_text (OPENAI_API_KEY (demo_env demo_create_quota))"
    by simp_all
  have l: "language_or_default None = ''english''"
    by (simp add: language_or_default_def)
  from provider_errors_reraised [where rt = demo_runtime and language = None
        and updateText = None and editedIngredients = None and img = "''QUJD''"
        and originalAnalysis = "JObj []" and feedback = "''less rice''" and lang = None
        and prompt = "''Say hello''" and maxTokens = None, OF h1 h2]
  show ?thesis
    by (simp add: l demo_create_quota_def buildAnalysisPrompt_def plain_user_text quota_caught)
qed

text \<open>
  C4 as it is written has every operation throw one of the four messages. On the same
  failing call \<^verbatim>\<open>generateText\<close> throws the error of the provider, which is none of them.
\<close>

theorem generateText_rethrows_counterexample:
  "generateText demo_runtime (demo_env demo_create_quota) ''Say hello'' None
     = (Inl (Error ''You exceeded your current quota''),
        [generate_request demo_runtime ''Say hello'' None])
   \<and> Error ''You exceeded your current quota'' \<notin> set user_facing_errors"
  by (simp add: generateText_configured [where create = demo_create_quota]
      demo_create_quota_def user_facing_errors_def)

subsection \<open>The language\<close>

text \<open>The texts of the two system prompts, piece by piece.\<close>

lemma buildUpdateContext_Inr:
  assumes "buildUpdateContext rt u e h = Inr c"
  shows "\<exists>lines. (given_items e \<longrightarrow> edited_lines rt 0 (the e) = Inr lines)
     \<and> c = (if h then hebrew_context_heading else english_context_heading) @
           (if given_text u
            then (if h then hebrew_feedback_line (the u) else english_feedback_line (the u))
            else []) @
           (if given_items e
            then (if h then hebrew_edited_heading (length_text rt (the e))
                  else english_edited_heading (length_text rt (the e))) @ lines
            else []) @
           (if h then hebrew_context_closing else english_context_closing)"
proof (cases "given_items e")
  case True
  with assms obtain lines where "edited_lines rt 0 (the e) = Inr lines"
    and "c = (if given_text u
              then (if h then hebrew_context_heading else english_context_heading) @
                   (if h then hebrew_feedback_line (the u) else english_feedback_line (the u))
              else (if h then hebrew_context_heading else english_context_heading)) @
             (if h then hebrew_edited_heading (length_text rt (the e))
              else english_edited_heading (length_text rt (the e))) @ lines @
             (if h then hebrew_context_closing else english_context_closing)"
    by (auto simp: buildUpdateContext_def Let_def andThen_Inr_iff)
  with True show ?thesis
    by (intro exI [of _ lines]) simp
next
  case False
  with assms show ?thesis
    by (auto simp: buildUpdateContext_def Let_def)
qed

lemma analysis_system_prompt_Inr:
  assumes "analysis_system_prompt rt h u e = Inr p"
  shows "\<exists>lines. (given_items e \<longrightarrow> edited_lines rt 0 (the e) = Inr lines)
     \<and> p = (if h then hebrew_analysis_prompt else english_analysis_prompt) @
           (if given_text u \<or> given_items e then
              (if h then hebrew_context_heading else english_context_heading) @
              (if given_text u
               then (if h then hebrew_feedback_line (the u) else english_feedback_line (the u))
               else []) @
              (if given_items e
               then (if h then hebrew_edited_heading (length_text rt (the e))
                     else english_edited_heading (length_text rt (the e))) @ lines
               else []) @
              (if h then hebrew_context_closing else english_context_closing)
            else [])"
proof (cases "given_text u \<or> given_items e")
  case True
  with assms obtain c where c: "buildUpdateContext rt u e h = Inr c"
    and p: "p = buildAnalysisPrompt h @ c"
    by (auto simp: analysis_system_prompt_def andThen_Inr_iff)
  from buildUpdateContext_Inr [OF c] p True show ?thesis
    by (auto simp: buildAnalysisPrompt_def)
next
  case False
  with assms show ?thesis
    by (auto simp: analysis_system_prompt_def buildAnalysisPrompt_def)
qed

lemma buildUpdatePrompt_text:
  "buildUpdatePrompt rt originalAnalysis feedback h =
     (if h then hebrew_update_base_prompt else english_update_base_prompt) @
     (if h then hebrew_original_data (JSON_stringify rt originalAnalysis)
      else english_original_data (JSON_stringify rt originalAnalysis)) @
     (if h then hebrew_update_instruction feedback else english_update_instruction feedback)"
  by (simp add: buildUpdatePrompt_def)

lemma system_prompt_of_update_request [simp]:
  "system_prompt_of (update_request rt p t) = Some (Plain p)"
  by (simp add: system_prompt_of_def update_request_def)

lemma update_of_response_Inr:
  assumes "update_of_response rt env h response = Inr n"
  shows "\<exists>content cleanedJSON parsedResult warnings.
           first_content response = Some content
         \<and> extractCleanJSON env content = Inr cleanedJSON
         \<and> JSON_parse rt cleanedJSON = Inr parsedResult
         \<and> normalizeAnalysisResult rt parsedResult h = Inr (n, warnings)"
  using assms unfolding update_of_response_def
  by (cases "first_content response")
    (auto simp: andThen_Inr_iff given_text_def split: if_splits)

lemma named_by_languageI:
  assumes "normalizeAnalysisResult rt parsedResult h = Inr (normalized, warnings)"
  shows "named_by_language h parsedResult normalized"
proof -
  from assms have lit: "normalized_literal rt parsedResult h = Inr normalized"
    by (simp add: normalizeAnalysisResult_Inr_iff)
  have "Ingredient.name (ingredients normalized ! i) =
          or_else (getProp (items ! i) ''name'')
            (JStr (if h then hebrew_unknown_ingredient else ''Unknown ingredient''))"
    if "getProp parsedResult ''ingredients'' = Some (JArr items)" and "i < length items"
    for items i
    using ingredient_name [OF nth_normalized_ingredient [OF lit that]] .
  with literal_name [OF lit] show ?thesis
    by (auto simp: named_by_language_def split: option.splits json.splits)
qed


text \<open>The examples of the language, evaluated.\<close>

lemma demo_numbers_printed:
  "NumberToString demo_runtime (Fin 1) = ''1''"
  "NumberToString demo_runtime (Fin 4) = ''4''"
  "NumberToString demo_runtime (Fin 200) = ''200''"
  by (simp_all add: demo_runtime_def)

lemma demo_edits_lines:
  "edited_lines demo_runtime 0 demo_edits = Inr ''  1. Rice: 200 cal, 4g protein\<newline>''"
  by (simp add: demo_edits_def edited_line_def interpolate_def demo_numbers_printed)

lemma demo_edits_given: "given_items (Some demo_edits)"
  by (simp add: given_items_def demo_edits_def)

lemma demo_edits_count: "length_text demo_runtime demo_edits = ''1''"
  by (simp add: length_text_def demo_edits_def demo_numbers_printed)

lemma demo_hebrew_edit_call:
  "analyzeMealImage demo_runtime (demo_env demo_create_ok) ''QUJD'' (Some ''hebrew'')
       (Some ''less rice'') (Some demo_edits)
     = (Inr hebrew_blank_meal,
        [analysis_request demo_runtime demo_hebrew_system_prompt demo_user_text ''QUJD''])"
  by (simp add: analyzeMealImage_configured [OF demo_env_simps(1,2)]
      language_or_default_def analysis_system_prompt_def buildUpdateContext_def
      buildAnalysisPrompt_def analyze_user_text_def given_text_def demo_edits_given
      demo_edits_lines demo_edits_count demo_create_ok_def demo_ok_analysis
      hebrew_blank_meal_def demo_hebrew_system_prompt_def demo_user_text_def)

lemma demo_stringify: "JSON_stringify demo_runtime (JObj []) = ''{}''"
  by (simp add: demo_runtime_def)

lemma demo_ok_update:
  \<open>update_of_response demo_runtime (demo_env create) h
      (Completion [Choice (Some (ReplyMessage (Some ''{"ingredients":[{}]}'')))])
    = Inr (blank_meal
            \<lparr> name := JStr (if h then hebrew_unknown_meal else ''Unknown meal''),
              ingredients :=
                [blank_ingredient
                   \<lparr> Ingredient.name :=
                       JStr (if h then hebrew_unknown_ingredient else ''Unknown ingredient'') \<rparr>] \<rparr>)\<close>
  by (simp add: update_of_response_def given_text_def eval_simps blank_meal_def
      blank_ingredient_def)

lemma demo_hebrew_update_call:
  "updateMealAnalysis demo_runtime (demo_env demo_create_ok) (JObj []) ''less rice''
       (Some ''hebrew'')
     = (Inr hebrew_blank_meal,
        [update_request demo_runtime
           (hebrew_update_base_prompt @ hebrew_original_data ''{}'' @
            hebrew_update_instruction ''less rice'') ''less rice''])"
  by (simp add: updateMealAnalysis_configured [OF demo_env_simps(1,2)]
      language_or_default_def buildUpdatePrompt_def demo_create_ok_def
      demo_ok_update demo_stringify hebrew_blank_meal_def)

lemma demo_default_update_call:
  "updateMealAnalysis demo_runtime (demo_env demo_create_ok) (JObj []) ''less rice'' None
     = (Inr (blank_meal \<lparr> ingredients := [blank_ingredient] \<rparr>),
        [update_request demo_runtime
           (english_update_base_prompt @ english_original_data ''{}'' @
            english_update_instruction ''less rice'') ''less rice''])"
  by (simp add: updateMealAnalysis_configured [OF demo_env_simps(1,2)]
      language_or_default_def buildUpdatePrompt_def demo_create_ok_def
      demo_ok_update demo_stringify blank_meal_def blank_ingredient_def)


text \<open>The two prompts are different texts.\<close>

lemma prompts_differ: "hebrew_analysis_prompt \<noteq> english_analysis_prompt"
proof -
  have "hd hebrew_analysis_prompt = CHR 0xD7"
    by (simp add: hebrew_analysis_prompt_def)
  moreover have "hd english_analysis_prompt = CHR ''Y''"
    by (simp add: english_analysis_prompt_def)
  ultimately show ?thesis by auto
qed

subsection \<open>The tuning of the requests\<close>

text \<open>
  C8. Every request that \<^verbatim>\<open>analyzeMealImage\<close> sends has \<^verbatim>\<open>max_tokens\<close> 2000 and
  \<^verbatim>\<open>temperature\<close> 0.1, every request of \<^verbatim>\<open>updateMealAnalysis\<close> has 1500 and 0.1, and
  every request of \<^verbatim>\<open>generateText\<close> has the \<^verbatim>\<open>maxTokens\<close> it was given, 1000 when it
  was given none, and 0.7. With a credential configured, \<^verbatim>\<open>updateMealAnalysis\<close> and
  \<^verbatim>\<open>generateText\<close> send exactly one request, and so does \<^verbatim>\<open>analyzeMealImage\<close> when its
  prompt could be built.
\<close>

theorem requests_tuned_per_operation:
  "(\<forall>req \<in> set (snd (analyzeMealImage rt env img language updateText editedIngredients)).
       max_tokens req = Fin 2000 \<and> temperature req = fl rt (1 / 10))
   \<and> (\<forall>req \<in> set (snd (updateMealAnalysis rt env originalAnalysis feedback lang)).
       max_tokens req = Fin 1500 \<and> temperature req = fl rt (1 / 10))
   \<and> (\<forall>req \<in> set (snd (generateText rt env prompt maxTokens)).
       max_tokens req = (case maxTokens of None \<Rightarrow> Fin 1000 | Some m \<Rightarrow> m)
       \<and> temperature req = fl rt (7 / 10))
   \<and> (\<not> not_configured env \<longrightarrow>
         length (snd (updateMealAnalysis rt env originalAnalysis feedback lang)) = 1
       \<and> length (snd (generateText rt env prompt maxTokens)) = 1
       \<and> ((\<exists>p. analysis_system_prompt rt (language_or_default language = ''hebrew'') updateText
                 editedIngredients = Inr p)
            \<longrightarrow> length (snd (analyzeMealImage rt env img language updateText editedIngredients)) = 1))"
proof (cases "not_configured env")
  case True
  then show ?thesis
    by (simp add: analyzeMealImage_def updateMealAnalysis_def generateText_def)
next
  case False
  then obtain create where c: "openai env = Some create" and k: "given_text (OPENAI_API_KEY env)"
    by (auto simp: configured_iff)
  have a: "\<forall>req \<in> set (snd (analyzeMealImage rt env img language updateText editedIngredients)).
       max_tokens req = Fin 2000 \<and> temperature req = fl rt (1 / 10)"
    by (auto simp: analyzeMealImage_configured [OF c k] analysis_request_def split: sum.splits)
  have a1: "length (snd (analyzeMealImage rt env img language updateText editedIngredients)) = 1"
    if "analysis_system_prompt rt (language_or_default language = ''hebrew'') updateText
                 editedIngredients = Inr p" for p
    using that by (simp add: analyzeMealImage_configured [OF c k])
  have u: "snd (updateMealAnalysis rt env originalAnalysis feedback lang) =
      [update_request rt
         (buildUpdatePrompt rt originalAnalysis feedback (language_or_default lang = ''hebrew''))
         feedback]"
    by (simp add: updateMealAnalysis_configured [OF c k])
  have g: "snd (generateText rt env prompt maxTokens) = [generate_request rt prompt maxTokens]"
    by (simp add: generateText_configured [OF c k])
  from a a1 show ?thesis
    by (auto simp: u g update_request_def generate_request_def)
qed

text \<open>The theorem at calls of the three operations, with and without \<^verbatim>\<open>maxTokens\<close>.\<close>

theorem requests_tuned_per_operation_witness:
  "\<not> not_configured (demo_env demo_create_ok)
   \<and> snd (analyzeMealImage demo_runtime (demo_env demo_create_ok) ''QUJD'' None None None)
       = [analysis_request demo_runtime english_analysis_prompt
            ''Please analyze this meal image and provide detailed nutritional information.''
            ''QUJD'']
   \<and> max_tokens (analysis_request demo_runtime english_analysis_prompt
            ''Please analyze this meal image and provide detailed nutritional information.''
            ''QUJD'') = Fin 2000
   \<and> temperature (analysis_request demo_runtime english_analysis_prompt
            ''Please analyze this meal image and provide detailed nutritional information.''
            ''QUJD'') = Fin (1 / 10)
   \<and> snd (updateMealAnalysis demo_runtime (demo_env demo_create_ok) (JObj []) ''less rice'' None)
       = [update_request demo_runtime
            (buildUpdatePrompt demo_runtime (JObj []) ''less rice'' False) ''less rice'']
   \<and> max_tokens (update_request demo_runtime
            (buildUpdatePrompt demo_runtime (JObj []) ''less rice'' False) ''less rice'') = Fin 1500
   \<and> temperature (update_request demo_runtime
            (buildUpdatePrompt demo_runtime (JObj []) ''less rice'' False) ''less rice'')
       = Fin (1 / 10)
   \<and> snd (generateText demo_runtime (demo_env demo_create_ok) ''Say hello'' None)
       = [generate_request demo_runtime ''Say hello'' None]
   \<and> max_tokens (generate_request demo_runtime ''Say hello'' None) = Fin 1000
   \<and> temperature (generate_request demo_runtime ''Say hello'' None) = Fin (7 / 10)
   \<and> snd (generateText demo_runtime (demo_env demo_create_ok) ''Say hello'' (Some (Fin 50)))
       = [generate_request demo_runtime ''Say hello'' (Some (Fin 50))]
   \<and> max_tokens (generate_request demo_runtime ''Say hello'' (Some (Fin 50))) = Fin 50"
proof -
  have f: "fl demo_runtime = Fin"
    by (simp add: demo_runtime_def)
  have l: "language_or_default None = ''english''"
    by (simp add: language_or_default_def)
  have nc: "\<not> not_configured (demo_env demo_create_ok)"
    by (simp add: configured_iff)
  have s1: "snd (analyzeMealImage demo_runtime (demo_env demo_create_ok) ''QUJD'' None None None)
       = [analysis_request demo_runtime english_analysis_prompt
            ''Please analyze this meal image and provide detailed nutritional information.''
            ''QUJD'']"
    by (simp add: analyzeMealImage_configured [where create = demo_create_ok] l
        buildAnalysisPrompt_def plain_user_text)
  have s2: "snd (updateMealAnalysis demo_runtime (demo_env demo_create_ok) (JObj []) ''less rice'' None)
       = [update_request demo_runtime
            (buildUpdatePrompt demo_runtime (JObj []) ''less rice'' False) ''less rice'']"
    by (simp add: updateMealAnalysis_configured [where create = demo_create_ok] l)
  have s3: "snd (generateText demo_runtime (demo_env demo_create_ok) ''Say hello'' m)
       = [generate_request demo_runtime ''Say hello'' m]" for m
    by (simp add: generateText_configured [where create = demo_create_ok])
  from requests_tuned_per_operation [where rt = demo_runtime and env = "demo_env demo_create_ok"
      and img = "''QUJD''" and language = None and updateText = None and editedIngredients = None
      and originalAnalysis = "JObj []" and feedback = "''less rice''" and lang = None
      and prompt = "''Say hello''" and maxTokens = None]
    requests_tuned_per_operation [where rt = demo_runtime and env = "demo_env demo_create_ok"
      and prompt = "''Say hello''" and maxTokens = "Some (Fin 50)"]
  show ?thesis
    by (simp add: s1 s2 s3 f nc)
qed

subsection \<open>A response with no text\<close>

text \<open>
  C9. With a credential configured and a response that has no text content (no choice, no
  message, no content or an empty one), \<^verbatim>\<open>generateText\<close> returns the empty string. On
  such a response the \<^verbatim>\<open>try\<close> of \<^verbatim>\<open>analyzeMealImage\<close> and that of
  \<^verbatim>\<open>updateMealAnalysis\<close> throw \<^verbatim>\<open>No response content from OpenAI\<close>, and the operations
  fail, with the message that their \<^verbatim>\<open>catch\<close> makes of it.
\<close>

theorem empty_response_generateText_returns_empty:
  assumes "openai env = Some create" and "given_text (OPENAI_API_KEY env)"
    and "\<not> given_text (first_content response)"
  shows "(create (generate_request rt prompt maxTokens) = Inr response
            \<longrightarrow> generateText rt env prompt maxTokens
                  = (Inr [], [generate_request rt prompt maxTokens]))
     \<and> (\<forall>p. analysis_system_prompt rt (language_or_default language = ''hebrew'') updateText
               editedIngredients = Inr p
            \<and> create (analysis_request rt p
                  (analyze_user_text rt updateText editedIngredients) img) = Inr response
            \<longrightarrow> fst (analyzeMealImage_try rt env create img (language_or_default language)
                       updateText editedIngredients)
                  = Inl (Error ''No response content from OpenAI'')
                \<and> fst (analyzeMealImage rt env img language updateText editedIngredients)
                  = Inl (Error ''AI analysis failed. Please try again.''))
     \<and> (create (update_request rt
                  (buildUpdatePrompt rt originalAnalysis feedback
                     (language_or_default lang = ''hebrew'')) feedback) = Inr response
            \<longrightarrow> fst (updateMealAnalysis_try rt env create originalAnalysis feedback
                       (language_or_default lang))
                  = Inl (Error ''No response content from OpenAI'')
                \<and> fst (updateMealAnalysis rt env originalAnalysis feedback lang)
                  = Inl (Error ''Failed to update meal analysis''))"
proof -
  have g: "generateText rt env prompt maxTokens = (Inr [], [generate_request rt prompt maxTokens])"
    if "create (generate_request rt prompt maxTokens) = Inr response"
    using that assms(3) by (simp add: generateText_configured [OF assms(1,2)])
  have a: "fst (analyzeMealImage_try rt env create img (language_or_default language)
                       updateText editedIngredients)
                  = Inl (Error ''No response content from OpenAI'')
                \<and> fst (analyzeMealImage rt env img language updateText editedIngredients)
                  = Inl (Error ''AI analysis failed. Please try again.'')"
    if "analysis_system_prompt rt (language_or_default language = ''hebrew'') updateText
               editedIngredients = Inr p"
      and "create (analysis_request rt p
                  (analyze_user_text rt updateText editedIngredients) img) = Inr response"
    for p
    using that assms(3)
    by (simp add: analyzeMealImage_configured [OF assms(1,2)] analyzeMealImage_try_def
        analysis_of_response_def no_content_caught)
  have u: "fst (updateMealAnalysis_try rt env create originalAnalysis feedback
                       (language_or_default lang))
                  = Inl (Error ''No response content from OpenAI'')
                \<and> fst (updateMealAnalysis rt env originalAnalysis feedback lang)
                  = Inl (Error ''Failed to update meal analysis'')"
    if "create (update_request rt
                  (buildUpdatePrompt rt originalAnalysis feedback
                     (language_or_default lang = ''hebrew'')) feedback) = Inr response"
    using that assms(3)
    by (simp add: updateMealAnalysis_configured [OF assms(1,2)] updateMealAnalysis_try_def
        update_of_response_def Let_def)
  from g a u show ?thesis by blast
qed

text \<open>The theorem at a remote call whose response has a message with no content.\<close>

theorem empty_response_generateText_returns_empty_witness:
  "openai (demo_env demo_create_empty) = Some demo_create_empty
   \<and> given_text (OPENAI_API_KEY (demo_env demo_create_empty))
   \<and> \<not> given_text (first_content (Completion [Choice (Some (ReplyMessage None))]))
   \<and> generateText demo_runtime (demo_env demo_create_empty) ''Say hello'' None
       = (Inr [], [generate_request demo_runtime ''Say hello'' None])
   \<and> fst (analyzeMealImage_try demo_runtime (demo_env demo_create_empty) demo_create_empty
             ''QUJD'' ''english'' None None)
       = Inl (Error ''No response content from OpenAI'')
   \<and> fst (analyzeMealImage demo_runtime (demo_env demo_create_empty) ''QUJD'' None None None)
       = Inl (Error ''AI analysis failed. Please try again.'')
   \<and> fst (updateMealAnalysis_try demo_runtime (demo_env demo_create_empty) demo_create_empty
             (JObj []) ''less rice'' ''english'')
       = Inl (Error ''No response content from OpenAI'')
   \<and> fst (updateMealAnalysis demo_runtime (demo_env demo_create_empty) (JObj []) ''less rice'' None)
       = Inl (Error ''Failed to update meal analysis'')"
proof -
  have h1: "openai (demo_env demo_create_empty) = Some demo_create_empty"
    and h2: "given_text (OPENAI_API_KEY (demo_env demo_create_empty))"
    by simp_all
  have h3: "\<not> given_text (first_content (Completion [Choice (Some (ReplyMessage None))]))"
    by (simp add: given_text_def)
  have l: "language_or_default None = ''english''"
    by (simp add: language_or_default_def)
  from empty_response_generateText_returns_empty [where rt = demo_runtime
      and language = None and updateText = None and editedIngredients = None and img = "''QUJD''"
      and originalAnalysis = "JObj []" and feedback = "''less rice''" and lang = None
      and prompt = "''Say hello''" and maxTokens = None, OF h1 h2 h3]
  show ?thesis
    using h1 h2 h3 by (simp add: l demo_create_empty_def)
qed

end
